theory Spec2Isabelle
  imports Main "HOL-Library.Word"
begin

section \<open>HRESULT values and the error macros\<close>

text \<open>
  An HRESULT is a signed 32-bit value; \<open>FAILED(hr)\<close> is \<open>hr < 0\<close>. The macros
  \<open>IFR(hr)\<close> (return \<open>hr\<close> when it failed) and \<open>IFV(hr)\<close> (return from a void function
  when it failed) are written out as conditionals on \<open>FAILED\<close> where they occur.
  \<open>E_ABORT\<close> is 0x80004004, \<open>E_FAIL\<close> is 0x80004005 and \<open>MF_E_UNEXPECTED\<close> is 0xC00D36BB.
\<close>

type_synonym hresult = "32 word"

definition S_OK :: hresult where
  "S_OK = 0"

definition E_ABORT :: hresult where
  "E_ABORT = 2147500036"

definition E_FAIL :: hresult where
  "E_FAIL = 2147500037"

definition MF_E_UNEXPECTED :: hresult where
  "MF_E_UNEXPECTED = 3222091451"

definition FAILED :: "hresult \<Rightarrow> bool" where
  "FAILED hr = (sint hr < 0)"

definition SUCCEEDED :: "hresult \<Rightarrow> bool" where
  "SUCCEEDED hr = (0 \<le> sint hr)"

section \<open>Data of the capture engine\<close>

datatype AsyncStatus = Started | Completed | Canceled | Error

datatype MediaStreamType = Audio | VideoPreview | VideoRecord | Photo

datatype CaptureStateType =
  PreviewStarted | PreviewStopped | PreviewAudioFrame | PreviewVideoFrame

text \<open>
  A 4x4 float matrix is only moved around by the engine: \<open>ZeroMatrix\<close> is what
  \<open>ZeroMemory\<close> leaves, \<open>Matrix n\<close> a value computed by the texture from a pose.
\<close>

datatype matrix4x4 = ZeroMatrix | Matrix nat

record CAPTURE_STATE =
  stateType :: CaptureStateType
  width :: "32 word"
  height :: "32 word"
  texturePtr :: "nat option"
  worldMatrix :: matrix4x4
  projectionMatrix :: matrix4x4

datatype notification = Capture CAPTURE_STATE | Failure

text \<open>
  One call of the callback sink. The sink is called synchronously, inside the engine's
  critical section, so it can observe the engine at that moment; the two flags record
  whether \<open>m_startPreviewOp\<close> and \<open>m_stopPreviewOp\<close> were non-null when it was called.
\<close>

record sink_call =
  notified :: notification
  startOpSeen :: bool
  stopOpSeen :: bool

datatype guid = GUID_NULL | MFMediaType_Audio | MFMediaType_Video | OtherGuid nat

text \<open>The media sample carried by a payload (an \<open>IMFSample\<close>), as its bytes.\<close>

record media_sample =
  sampleData :: "8 word list"

text \<open>
  A payload: \<open>mediaStreamSample\<close> is \<open>None\<close> when \<open>MediaStreamSample()\<close> is null and
  \<open>Some None\<close> when its extended properties have no \<open>MF_MT_MAJOR_TYPE\<close>;
  \<open>streamSample\<close> is the \<open>IStreamSample\<close> view; \<open>encodingProperties\<close> is the width
  and height of the video encoding properties, \<open>None\<close> when the payload has none.
\<close>

record Payload =
  mediaStreamSample :: "guid option option"
  streamSample :: "media_sample option"
  encodingProperties :: "(32 word \<times> 32 word) option"

text \<open>\<open>m_audioSample\<close>: an \<open>IMFSample\<close> holding one memory buffer of a fixed capacity.\<close>

record audio_sample =
  audioId :: nat
  maxLength :: "32 word"
  audioData :: "8 word list"

record SharedTexture =
  textureId :: nat
  frameTexture :: "nat option"
  frameTextureDescWidth :: "32 word"
  frameTextureDescHeight :: "32 word"
  frameTextureSRV :: "nat option"
  mediaSampleData :: "8 word list"
  cameraToWorldTransform :: matrix4x4
  cameraProjectionMatrix :: matrix4x4

text \<open>The capture session (\<open>MediaCapture\<close>): the engine reads only its camera stream state.\<close>

record MediaCapture =
  cameraStreaming :: bool

record Sink =
  sinkPayloadHandler :: "nat option"

text \<open>
  A payload handler object has five events; each holds the tokens of its registered
  delegates, in registration order.
\<close>

type_synonym event_token = nat

record PayloadHandler_events =
  onMediaProfile :: "event_token list"
  onStreamDescription :: "event_token list"
  onStreamMetadata :: "event_token list"
  onStreamSample :: "event_token list"
  onStreamPayload :: "event_token list"

text \<open>Calls the engine makes on its external collaborators, in the order made.\<close>

datatype ext_call =
  SharedTexture_Create "32 word" "32 word" hresult
  | MFCreateMemoryBuffer "32 word" hresult
  | CopySample guid hresult
  | UpdateTransforms hresult
  | RemoveEffectAsync nat hresult
  | StopRecordAsync hresult
  | StopPreviewAsync hresult
  | MediaCapture_Close

text \<open>
  What the external collaborators answer during one entry into the engine: whether the
  Unity device resources are still alive, and the HRESULT of each call that can fail.
\<close>

record environment =
  unityDeviceAlive :: bool
  hrQueryInterface :: hresult
  hrGetAdapter :: hresult
  hrCreateMediaDevice :: hresult
  hrMFCreateDXGIDeviceManager :: hresult
  hrResetDevice :: hresult
  newResetToken :: "32 word"
  hrGetTotalLength :: hresult
  hrMFCreateMemoryBuffer :: hresult
  hrMFCreateSample :: hresult
  hrAddBuffer :: hresult
  hrCopySample :: hresult
  hrSharedTextureCreate :: hresult
  hrUpdateTransforms :: hresult
  poseWorld :: matrix4x4
  poseProjection :: matrix4x4
  hrRemoveEffect :: "nat \<Rightarrow> hresult"
  hrStopStream :: hresult

text \<open>
  The engine's members, under their source names. Pointers are options (\<open>None\<close> is
  \<open>nullptr\<close>); the two event handles are the signalled state of their manual-reset
  events. \<open>handlers\<close> is the heap of payload handler objects, \<open>nextToken\<close> and
  \<open>nextObject\<close> give fresh event tokens and object identities, \<open>sinkCalls\<close> and
  \<open>calls\<close> record what reached the callback sink and the external collaborators.
\<close>

record CaptureEngine =
  m_isShutdown :: bool
  m_startPreviewEventHandle :: bool
  m_stopPreviewEventHandle :: bool
  m_mediaDevice :: "nat option"
  m_dxgiDeviceManager :: "nat option"
  m_resetToken :: "32 word"
  m_streamType :: MediaStreamType
  m_startPreviewOp :: "AsyncStatus option"
  m_stopPreviewOp :: "AsyncStatus option"
  m_mediaCapture :: "MediaCapture option"
  m_initSettings :: "nat option"
  m_mrcAudioEffect :: "nat option"
  m_mrcVideoEffect :: "nat option"
  m_mrcPreviewEffect :: "nat option"
  m_mediaSink :: "Sink option"
  m_payloadHandler :: "nat option"
  m_profileEventToken :: event_token
  m_streamDescriptionEventToken :: event_token
  m_streamMetaDataEventToken :: event_token
  m_streamSampleEventToken :: event_token
  m_payloadEventToken :: event_token
  m_audioSample :: "audio_sample option"
  m_sharedVideoTexture :: "SharedTexture option"
  m_appCoordinateSystem :: "nat option"
  handlers :: "nat \<Rightarrow> PayloadHandler_events"
  nextToken :: event_token
  nextObject :: nat
  sinkCalls :: "sink_call list"
  calls :: "ext_call list"

definition no_events :: PayloadHandler_events where
  "no_events = \<lparr>onMediaProfile = [], onStreamDescription = [], onStreamMetadata = [],
     onStreamSample = [], onStreamPayload = []\<rparr>"

text \<open>
  The state the constructor leaves: both events created signalled, every pointer null,
  the stream type \<open>VideoPreview\<close>. The five event tokens are not in the initialiser
  list; a default-constructed \<open>winrt::event_token\<close> has the value 0, and no
  registration is ever given the token 0.
\<close>

definition CaptureEngine_init :: CaptureEngine where
  "CaptureEngine_init = \<lparr>
     m_isShutdown = False,
     m_startPreviewEventHandle = True,
     m_stopPreviewEventHandle = True,
     m_mediaDevice = None,
     m_dxgiDeviceManager = None,
     m_resetToken = 0,
     m_streamType = VideoPreview,
     m_startPreviewOp = None,
     m_stopPreviewOp = None,
     m_mediaCapture = None,
     m_initSettings = None,
     m_mrcAudioEffect = None,
     m_mrcVideoEffect = None,
     m_mrcPreviewEffect = None,
     m_mediaSink = None,
     m_payloadHandler = None,
     m_profileEventToken = 0,
     m_streamDescriptionEventToken = 0,
     m_streamMetaDataEventToken = 0,
     m_streamSampleEventToken = 0,
     m_payloadEventToken = 0,
     m_audioSample = None,
     m_sharedVideoTexture = None,
     m_appCoordinateSystem = None,
     handlers = (\<lambda>_. no_events),
     nextToken = 1,
     nextObject = 1,
     sinkCalls = [],
     calls = []\<rparr>"

section \<open>The callback sink\<close>

text \<open>
  Modelled from the spec: \<open>Module::Callback\<close> and \<open>Module::Failed\<close> belong to the base
  class \<open>Module\<close>, whose source is not part of the engine's file. The caller callback
  contract has one notification channel carrying capture-state events and a failure
  event, delivered synchronously from whichever context completed the operation. Each
  call is appended to \<open>sinkCalls\<close>.
\<close>

definition Callback :: "CAPTURE_STATE \<Rightarrow> CaptureEngine \<Rightarrow> CaptureEngine" where
  "Callback st s = s\<lparr>sinkCalls := sinkCalls s @
     [\<lparr>notified = Capture st, startOpSeen = (m_startPreviewOp s \<noteq> None),
       stopOpSeen = (m_stopPreviewOp s \<noteq> None)\<rparr>]\<rparr>"

definition Failed :: "CaptureEngine \<Rightarrow> CaptureEngine" where
  "Failed s = s\<lparr>sinkCalls := sinkCalls s @
     [\<lparr>notified = Failure, startOpSeen = (m_startPreviewOp s \<noteq> None),
       stopOpSeen = (m_stopPreviewOp s \<noteq> None)\<rparr>]\<rparr>"

text \<open>A \<open>CALLBACK_STATE\<close> of type \<open>Capture\<close> after the two \<open>ZeroMemory\<close> calls.\<close>

definition zero_capture_state :: "CaptureStateType \<Rightarrow> CAPTURE_STATE" where
  "zero_capture_state t = \<lparr>stateType = t, width = 0, height = 0, texturePtr = None,
     worldMatrix = ZeroMatrix, projectionMatrix = ZeroMatrix\<rparr>"

section \<open>Device resources\<close>

definition CreateDeviceResources :: "environment \<Rightarrow> CaptureEngine \<Rightarrow> hresult \<times> CaptureEngine" where
  "CreateDeviceResources env s =
     (if m_mediaDevice s \<noteq> None \<and> m_dxgiDeviceManager s \<noteq> None then (S_OK, s)
      else if \<not> unityDeviceAlive env then (MF_E_UNEXPECTED, s)
      else if FAILED (hrQueryInterface env) then (hrQueryInterface env, s)
      else if FAILED (hrGetAdapter env) then (hrGetAdapter env, s)
      else if FAILED (hrCreateMediaDevice env) then (hrCreateMediaDevice env, s)
      else if FAILED (hrMFCreateDXGIDeviceManager env) then (hrMFCreateDXGIDeviceManager env, s)
      else if FAILED (hrResetDevice env) then (hrResetDevice env, s)
      else (S_OK, s\<lparr>m_mediaDevice := Some (nextObject s),
                     m_dxgiDeviceManager := Some (Suc (nextObject s)),
                     m_resetToken := newResetToken env,
                     nextObject := Suc (Suc (nextObject s))\<rparr>))"

definition ReleaseDeviceResources :: "CaptureEngine \<Rightarrow> CaptureEngine" where
  "ReleaseDeviceResources s =
     s\<lparr>m_audioSample := None, m_sharedVideoTexture := None,
       m_dxgiDeviceManager := None, m_mediaDevice := None\<rparr>"

section \<open>StartPreview, StopPreview and their completion handlers\<close>

text \<open>
  The operation handle is \<open>None\<close> when absent and otherwise holds the status of the
  asynchronous action; assigning the launched coroutine stores \<open>Some Started\<close>.
\<close>

definition StartPreview ::
  "environment \<Rightarrow> 32 word \<Rightarrow> 32 word \<Rightarrow> bool \<Rightarrow> bool \<Rightarrow> CaptureEngine \<Rightarrow> hresult \<times> CaptureEngine" where
  "StartPreview env w h enableAudio enableMrc s =
     (if (m_startPreviewOp s \<noteq> None \<or> m_stopPreviewOp s \<noteq> None) \<and> FAILED E_ABORT
      then (E_ABORT, s)
      else
        let s1 = s\<lparr>m_startPreviewEventHandle := False\<rparr>;
            (hr, s2) = CreateDeviceResources env s1
        in if FAILED hr then (hr, s2)
           else (S_OK, s2\<lparr>m_startPreviewOp := Some Started\<rparr>))"

definition StartPreview_Completed :: "AsyncStatus \<Rightarrow> CaptureEngine \<Rightarrow> CaptureEngine" where
  "StartPreview_Completed status s =
     (let s1 = s\<lparr>m_startPreviewOp := None\<rparr>
      in if status = Error then Failed s1
         else if status = Completed then Callback (zero_capture_state PreviewStarted) s1
         else s1)"

definition StopPreview :: "CaptureEngine \<Rightarrow> hresult \<times> CaptureEngine" where
  "StopPreview s =
     (if (m_startPreviewOp s \<noteq> None \<or> m_stopPreviewOp s \<noteq> None) \<and> FAILED E_ABORT
      then (E_ABORT, s)
      else (S_OK, s\<lparr>m_stopPreviewEventHandle := False, m_stopPreviewOp := Some Started\<rparr>))"

definition StopPreview_Completed :: "AsyncStatus \<Rightarrow> CaptureEngine \<Rightarrow> CaptureEngine" where
  "StopPreview_Completed status s =
     (let s1 = s\<lparr>m_stopPreviewOp := None\<rparr>
      in if status = Error then Failed s1
         else if status = Completed then Callback (zero_capture_state PreviewStopped) s1
         else s1)"

text \<open>
  \<open>Shutdown\<close> holds the critical section from entry to return. Its two waits block on
  the start and stop events; what the background coroutine has done to the engine by the
  time the event is signalled is given by \<open>awaitStart\<close> and \<open>awaitStop\<close>. The final
  \<open>Module::Shutdown()\<close> is the base class's and touches no member of the engine.
\<close>

definition Shutdown ::
  "(CaptureEngine \<Rightarrow> CaptureEngine) \<Rightarrow> (CaptureEngine \<Rightarrow> CaptureEngine) \<Rightarrow> CaptureEngine \<Rightarrow> CaptureEngine" where
  "Shutdown awaitStart awaitStop s =
     (if m_isShutdown s then s
      else
        let s1 = s\<lparr>m_isShutdown := True\<rparr>;
            s2 = (if m_startPreviewOp s1 = Some Started then awaitStart s1 else s1);
            s3 = (if m_mediaCapture s2 \<noteq> None then snd (StopPreview s2) else s2);
            s4 = (if m_stopPreviewOp s3 = Some Started then awaitStop s3 else s3)
        in ReleaseDeviceResources s4)"

section \<open>The payload handler binding\<close>

text \<open>
  Modelled from the spec: the \<open>PayloadHandler\<close> class is not in the engine's file. Its
  five event streams are independent subscriptions. Registering a delegate on an event
  returns a fresh token that identifies the registration; revoking with a token removes
  the registration of that event that has this token, and does nothing when the event has
  none.
\<close>

definition event_add :: "event_token list \<Rightarrow> event_token \<Rightarrow> event_token list" where
  "event_add regs t = regs @ [t]"

definition event_remove :: "event_token list \<Rightarrow> event_token \<Rightarrow> event_token list" where
  "event_remove regs t = removeAll t regs"

definition OnMediaProfile_add :: "nat \<Rightarrow> CaptureEngine \<Rightarrow> event_token \<times> CaptureEngine" where
  "OnMediaProfile_add h s =
     (nextToken s,
      s\<lparr>handlers := (handlers s)(h := (handlers s h)
           \<lparr>onMediaProfile := event_add (onMediaProfile (handlers s h)) (nextToken s)\<rparr>),
        nextToken := Suc (nextToken s)\<rparr>)"

definition OnStreamDescription_add :: "nat \<Rightarrow> CaptureEngine \<Rightarrow> event_token \<times> CaptureEngine" where
  "OnStreamDescription_add h s =
     (nextToken s,
      s\<lparr>handlers := (handlers s)(h := (handlers s h)
           \<lparr>onStreamDescription := event_add (onStreamDescription (handlers s h)) (nextToken s)\<rparr>),
        nextToken := Suc (nextToken s)\<rparr>)"

definition OnStreamMetadata_add :: "nat \<Rightarrow> CaptureEngine \<Rightarrow> event_token \<times> CaptureEngine" where
  "OnStreamMetadata_add h s =
     (nextToken s,
      s\<lparr>handlers := (handlers s)(h := (handlers s h)
           \<lparr>onStreamMetadata := event_add (onStreamMetadata (handlers s h)) (nextToken s)\<rparr>),
        nextToken := Suc (nextToken s)\<rparr>)"

definition OnStreamSample_add :: "nat \<Rightarrow> CaptureEngine \<Rightarrow> event_token \<times> CaptureEngine" where
  "OnStreamSample_add h s =
     (nextToken s,
      s\<lparr>handlers := (handlers s)(h := (handlers s h)
           \<lparr>onStreamSample := event_add (onStreamSample (handlers s h)) (nextToken s)\<rparr>),
        nextToken := Suc (nextToken s)\<rparr>)"

definition OnStreamPayload_add :: "nat \<Rightarrow> CaptureEngine \<Rightarrow> event_token \<times> CaptureEngine" where
  "OnStreamPayload_add h s =
     (nextToken s,
      s\<lparr>handlers := (handlers s)(h := (handlers s h)
           \<lparr>onStreamPayload := event_add (onStreamPayload (handlers s h)) (nextToken s)\<rparr>),
        nextToken := Suc (nextToken s)\<rparr>)"

text \<open>
  \<open>ResetPayloadHandler\<close> revokes, in the source's order: the profile event with
  \<open>m_profileEventToken\<close>, the payload event with \<open>m_payloadEventToken\<close>, the sample
  event with \<open>m_streamSampleEventToken\<close>, the metadata event with
  \<open>m_streamMetaDataEventToken\<close>, the description event with
  \<open>m_streamDescriptionEventToken\<close>.
\<close>

definition ResetPayloadHandler :: "CaptureEngine \<Rightarrow> CaptureEngine" where
  "ResetPayloadHandler s =
     (case m_payloadHandler s of
        None \<Rightarrow> s
      | Some h \<Rightarrow>
          let e0 = handlers s h;
              e1 = e0\<lparr>onMediaProfile := event_remove (onMediaProfile e0) (m_profileEventToken s)\<rparr>;
              e2 = e1\<lparr>onStreamPayload := event_remove (onStreamPayload e1) (m_payloadEventToken s)\<rparr>;
              e3 = e2\<lparr>onStreamSample := event_remove (onStreamSample e2) (m_streamSampleEventToken s)\<rparr>;
              e4 = e3\<lparr>onStreamMetadata := event_remove (onStreamMetadata e3) (m_streamMetaDataEventToken s)\<rparr>;
              e5 = e4\<lparr>onStreamDescription :=
                       event_remove (onStreamDescription e4) (m_streamDescriptionEventToken s)\<rparr>
          in s\<lparr>handlers := (handlers s)(h := e5), m_payloadHandler := None\<rparr>)"

text \<open>
  The setter with a non-null \<open>value\<close>. The token returned by \<open>OnStreamSample\<close> and the
  token returned by \<open>OnStreamPayload\<close> are both assigned to \<open>m_streamSampleEventToken\<close>,
  as in the source; \<open>m_payloadEventToken\<close> is not assigned.
\<close>

definition PayloadHandler_install :: "nat \<Rightarrow> CaptureEngine \<Rightarrow> CaptureEngine" where
  "PayloadHandler_install h s =
     (let s1 = ResetPayloadHandler s;
          s2 = s1\<lparr>m_payloadHandler := Some h\<rparr>;
          s3 = (case m_mediaSink s2 of
                  None \<Rightarrow> s2
                | Some snk \<Rightarrow> s2\<lparr>m_mediaSink := Some (snk\<lparr>sinkPayloadHandler := m_payloadHandler s2\<rparr>)\<rparr>);
          (t1, a1) = OnMediaProfile_add h s3;
          b1 = a1\<lparr>m_profileEventToken := t1\<rparr>;
          (t2, a2) = OnStreamDescription_add h b1;
          b2 = a2\<lparr>m_streamDescriptionEventToken := t2\<rparr>;
          (t3, a3) = OnStreamMetadata_add h b2;
          b3 = a3\<lparr>m_streamMetaDataEventToken := t3\<rparr>;
          (t4, a4) = OnStreamSample_add h b3;
          b4 = a4\<lparr>m_streamSampleEventToken := t4\<rparr>;
          (t5, a5) = OnStreamPayload_add h b4
      in a5\<lparr>m_streamSampleEventToken := t5\<rparr>)"

text \<open>
  The setter itself: with a null \<open>value\<close> the first registration dereferences the null
  handler, which is the result \<open>None\<close>.
\<close>

definition PayloadHandler_set :: "nat option \<Rightarrow> CaptureEngine \<Rightarrow> CaptureEngine option" where
  "PayloadHandler_set val s =
     (case val of None \<Rightarrow> None | Some h \<Rightarrow> Some (PayloadHandler_install h s))"

definition AppCoordinateSystem_set :: "nat option \<Rightarrow> CaptureEngine \<Rightarrow> CaptureEngine" where
  "AppCoordinateSystem_set val s = s\<lparr>m_appCoordinateSystem := val\<rparr>"

section \<open>The stream-payload handler\<close>

definition totalLength :: "media_sample \<Rightarrow> 32 word" where
  "totalLength smp = of_nat (length (sampleData smp))"

text \<open>
  Lines 401 to 415: the lazy allocation of \<open>m_audioSample\<close>. The boolean is \<open>False\<close>
  when one of the \<open>IFV\<close> checks returned from the handler.
\<close>

definition AllocateAudioSample ::
  "environment \<Rightarrow> media_sample \<Rightarrow> CaptureEngine \<Rightarrow> bool \<times> CaptureEngine" where
  "AllocateAudioSample env smp s =
     (if m_audioSample s \<noteq> None then (True, s)
      else if FAILED (hrGetTotalLength env) then (False, s)
      else
        let bufferSize = totalLength smp;
            s1 = s\<lparr>calls := calls s @ [MFCreateMemoryBuffer bufferSize (hrMFCreateMemoryBuffer env)]\<rparr>
        in if FAILED (hrMFCreateMemoryBuffer env) then (False, s1)
           else if FAILED (hrMFCreateSample env) then (False, s1)
           else if FAILED (hrAddBuffer env) then (False, s1)
           else (True, s1\<lparr>m_audioSample :=
                             Some \<lparr>audioId = nextObject s1, maxLength = bufferSize, audioData = []\<rparr>,
                           nextObject := Suc (nextObject s1)\<rparr>))"

text \<open>
  Modelled from the spec: \<open>CopySample\<close> is declared in \<open>Media.Functions.h\<close>, which is
  not part of the engine's file. It copies the sample's content into the destination in
  place; when it fails the destination is taken to be unchanged.
\<close>

definition OnAudioPayload :: "environment \<Rightarrow> media_sample \<Rightarrow> CaptureEngine \<Rightarrow> CaptureEngine" where
  "OnAudioPayload env smp s =
     (case AllocateAudioSample env smp s of
        (False, s1) \<Rightarrow> s1
      | (True, s1) \<Rightarrow>
          (case m_audioSample s1 of
             None \<Rightarrow> s1
           | Some dst \<Rightarrow>
               let s2 = s1\<lparr>calls := calls s1 @ [CopySample MFMediaType_Audio (hrCopySample env)]\<rparr>
               in if FAILED (hrCopySample env) then s2
                  else Callback (zero_capture_state PreviewAudioFrame)
                         (s2\<lparr>m_audioSample := Some (dst\<lparr>audioData := sampleData smp\<rparr>)\<rparr>)))"

definition texture_mismatch :: "CaptureEngine \<Rightarrow> 32 word \<Rightarrow> 32 word \<Rightarrow> bool" where
  "texture_mismatch s w h =
     (case m_sharedVideoTexture s of
        None \<Rightarrow> True
      | Some t \<Rightarrow> frameTexture t = None \<or> frameTextureDescWidth t \<noteq> w \<or> frameTextureDescHeight t \<noteq> h)"

text \<open>
  Lines 446 to 454. Modelled from the spec: \<open>SharedTexture::Create\<close> is not in the
  engine's file; the GPU buffer provider allocates, for a width and a height, a backing
  buffer, a shader-visible handle and a description of these dimensions. When it fails
  \<open>m_sharedVideoTexture\<close> is taken to be unchanged. The boolean is \<open>False\<close> when the
  handler returned before \<open>bufferChanged = true\<close>.
\<close>

definition ReallocateTexture ::
  "environment \<Rightarrow> 32 word \<Rightarrow> 32 word \<Rightarrow> CaptureEngine \<Rightarrow> bool \<times> CaptureEngine" where
  "ReallocateTexture env w h s =
     (if \<not> unityDeviceAlive env then (False, s)
      else
        let (hr, s1) = CreateDeviceResources env s
        in if FAILED hr then (False, s1)
           else
             let s2 = s1\<lparr>calls := calls s1 @ [SharedTexture_Create w h (hrSharedTextureCreate env)]\<rparr>
             in if FAILED (hrSharedTextureCreate env) then (False, s2)
                else (True, s2\<lparr>m_sharedVideoTexture :=
                                  Some \<lparr>textureId = nextObject s2,
                                        frameTexture = Some (Suc (nextObject s2)),
                                        frameTextureDescWidth = w,
                                        frameTextureDescHeight = h,
                                        frameTextureSRV = Some (Suc (Suc (nextObject s2))),
                                        mediaSampleData = [],
                                        cameraToWorldTransform = ZeroMatrix,
                                        cameraProjectionMatrix = ZeroMatrix\<rparr>,
                                nextObject := Suc (Suc (Suc (nextObject s2)))\<rparr>))"

text \<open>
  Lines 457 to 488, entered with the value of \<open>bufferChanged\<close>. Modelled from the spec:
  \<open>UpdateTransforms\<close> belongs to \<open>SharedTexture\<close>; on success it stores the recomputed
  camera-to-world and projection matrices on the texture, on failure it stores nothing.
\<close>

definition PublishVideoFrame ::
  "environment \<Rightarrow> media_sample \<Rightarrow> bool \<Rightarrow> CaptureEngine \<Rightarrow> CaptureEngine" where
  "PublishVideoFrame env smp bufferChanged s =
     (case m_sharedVideoTexture s of
        None \<Rightarrow> s
      | Some t \<Rightarrow>
          let s1 = s\<lparr>calls := calls s @ [CopySample MFMediaType_Video (hrCopySample env)]\<rparr>
          in if FAILED (hrCopySample env) then s1
             else
               let t1 = t\<lparr>mediaSampleData := sampleData smp\<rparr>;
                   s2 = s1\<lparr>m_sharedVideoTexture := Some t1\<rparr>;
                   state = (zero_capture_state PreviewVideoFrame)
                             \<lparr>width := frameTextureDescWidth t1,
                              height := frameTextureDescHeight t1,
                              texturePtr := frameTextureSRV t1\<rparr>;
                   (s3, state3, changed3) =
                     (if m_appCoordinateSystem s2 \<noteq> None
                      then
                        let s2' = s2\<lparr>calls := calls s2 @ [UpdateTransforms (hrUpdateTransforms env)]\<rparr>
                        in if SUCCEEDED (hrUpdateTransforms env)
                           then
                             let t2 = t1\<lparr>cameraToWorldTransform := poseWorld env,
                                         cameraProjectionMatrix := poseProjection env\<rparr>
                             in (s2'\<lparr>m_sharedVideoTexture := Some t2\<rparr>,
                                 state\<lparr>worldMatrix := cameraToWorldTransform t2,
                                       projectionMatrix := cameraProjectionMatrix t2\<rparr>,
                                 True)
                           else (s2', state, bufferChanged)
                      else (s2, state, bufferChanged))
               in if changed3 then Callback state3 s3 else s3)"

text \<open>
  The video branch. A payload without video encoding properties makes
  \<open>as<IVideoEncodingProperties>()\<close> throw before anything is changed.
\<close>

definition OnVideoPayload ::
  "environment \<Rightarrow> Payload \<Rightarrow> media_sample \<Rightarrow> CaptureEngine \<Rightarrow> CaptureEngine" where
  "OnVideoPayload env p smp s =
     (case encodingProperties p of
        None \<Rightarrow> s
      | Some (w, h) \<Rightarrow>
          if texture_mismatch s w h
          then (case ReallocateTexture env w h s of
                  (False, s1) \<Rightarrow> s1
                | (True, s1) \<Rightarrow> PublishVideoFrame env smp True s1)
          else PublishVideoFrame env smp False s)"

definition majorTypeOf :: "Payload \<Rightarrow> guid" where
  "majorTypeOf p =
     (case mediaStreamSample p of
        None \<Rightarrow> GUID_NULL
      | Some None \<Rightarrow> GUID_NULL
      | Some (Some g) \<Rightarrow> g)"

text \<open>The delegate registered on the stream-payload event, called with the sender.\<close>

definition OnStreamPayload ::
  "environment \<Rightarrow> nat \<Rightarrow> Payload option \<Rightarrow> CaptureEngine \<Rightarrow> CaptureEngine" where
  "OnStreamPayload env sender payload s =
     (if m_isShutdown s then s
      else if Some sender \<noteq> m_payloadHandler s then s
      else
        case payload of
          None \<Rightarrow> s
        | Some p \<Rightarrow>
            (case streamSample p of
               None \<Rightarrow> s
             | Some smp \<Rightarrow>
                 if MFMediaType_Audio = majorTypeOf p then OnAudioPayload env smp s
                 else if MFMediaType_Video = majorTypeOf p then OnVideoPayload env p smp s
                 else s))"

text \<open>A run of deliveries, each with the answers of the environment, sender and payload.\<close>

type_synonym delivery = "environment \<times> nat \<times> Payload option"

fun deliver :: "delivery \<Rightarrow> CaptureEngine \<Rightarrow> CaptureEngine" where
  "deliver (env, sender, payload) s = OnStreamPayload env sender payload s"

fun deliver_all :: "delivery list \<Rightarrow> CaptureEngine \<Rightarrow> CaptureEngine" where
  "deliver_all [] s = s"
| "deliver_all (d # ds) s = deliver_all ds (deliver d s)"

section \<open>Effects and the stop sequence\<close>

text \<open>
  A coroutine either runs to its end or is left by an exception; awaiting an asynchronous
  operation that failed throws its HRESULT. The engine is returned as the coroutine left it.
\<close>

datatype completion = Normal | Thrown hresult

definition status_of :: "completion \<Rightarrow> AsyncStatus" where
  "status_of c = (case c of Normal \<Rightarrow> Completed | Thrown hr \<Rightarrow> Error)"

definition RemoveEffect :: "environment \<Rightarrow> nat \<Rightarrow> CaptureEngine \<Rightarrow> completion \<times> CaptureEngine" where
  "RemoveEffect env e s =
     (let hr = hrRemoveEffect env e;
          s1 = s\<lparr>calls := calls s @ [RemoveEffectAsync e hr]\<rparr>
      in (if FAILED hr then Thrown hr else Normal, s1))"

definition remove_audio :: "environment \<Rightarrow> CaptureEngine \<Rightarrow> completion \<times> CaptureEngine" where
  "remove_audio env s =
     (case m_mrcAudioEffect s of
        None \<Rightarrow> (Normal, s)
      | Some e \<Rightarrow>
          (case RemoveEffect env e s of
             (Thrown hr, s1) \<Rightarrow> (Thrown hr, s1)
           | (Normal, s1) \<Rightarrow> (Normal, s1\<lparr>m_mrcAudioEffect := None\<rparr>)))"

definition remove_preview :: "environment \<Rightarrow> CaptureEngine \<Rightarrow> completion \<times> CaptureEngine" where
  "remove_preview env s =
     (case m_mrcPreviewEffect s of
        None \<Rightarrow> (Normal, s)
      | Some e \<Rightarrow>
          (case RemoveEffect env e s of
             (Thrown hr, s1) \<Rightarrow> (Thrown hr, s1)
           | (Normal, s1) \<Rightarrow> (Normal, s1\<lparr>m_mrcPreviewEffect := None\<rparr>)))"

definition remove_video :: "environment \<Rightarrow> CaptureEngine \<Rightarrow> completion \<times> CaptureEngine" where
  "remove_video env s =
     (case m_mrcVideoEffect s of
        None \<Rightarrow> (Normal, s)
      | Some e \<Rightarrow>
          (case RemoveEffect env e s of
             (Thrown hr, s1) \<Rightarrow> (Thrown hr, s1)
           | (Normal, s1) \<Rightarrow> (Normal, s1\<lparr>m_mrcVideoEffect := None\<rparr>)))"

definition RemoveMrcEffectsAsync :: "environment \<Rightarrow> CaptureEngine \<Rightarrow> completion \<times> CaptureEngine" where
  "RemoveMrcEffectsAsync env s =
     (if m_mediaCapture s = None then (Normal, s)
      else if m_mrcAudioEffect s \<noteq> None \<or> m_mrcPreviewEffect s \<noteq> None \<or> m_mrcVideoEffect s \<noteq> None
      then (case remove_audio env s of
              (Thrown hr, s1) \<Rightarrow> (Thrown hr, s1)
            | (Normal, s1) \<Rightarrow>
                (case remove_preview env s1 of
                   (Thrown hr, s2) \<Rightarrow> (Thrown hr, s2)
                 | (Normal, s2) \<Rightarrow> remove_video env s2))
      else (Normal, s))"

definition ReleaseMediaCaptureAsync :: "environment \<Rightarrow> CaptureEngine \<Rightarrow> completion \<times> CaptureEngine" where
  "ReleaseMediaCaptureAsync env s =
     (if m_mediaCapture s = None then (Normal, s)
      else
        case RemoveMrcEffectsAsync env s of
          (Thrown hr, s1) \<Rightarrow> (Thrown hr, s1)
        | (Normal, s1) \<Rightarrow>
            let s2 = (if m_initSettings s1 \<noteq> None then s1\<lparr>m_initSettings := None\<rparr> else s1);
                s3 = s2\<lparr>calls := calls s2 @ [MediaCapture_Close]\<rparr>
            in (Normal, s3\<lparr>m_mediaCapture := None\<rparr>))"

text \<open>Lines 647 to 657: stopping the stream of a session that reports streaming.\<close>

definition StopStream :: "environment \<Rightarrow> MediaCapture \<Rightarrow> CaptureEngine \<Rightarrow> completion \<times> CaptureEngine" where
  "StopStream env cap s =
     (if cameraStreaming cap
      then
        let hr = hrStopStream env;
            stopped = (if FAILED hr then Thrown hr else Normal);
            cap' = (if FAILED hr then cap else cap\<lparr>cameraStreaming := False\<rparr>)
        in if m_streamType s = VideoRecord
           then (stopped, s\<lparr>calls := calls s @ [StopRecordAsync hr], m_mediaCapture := Some cap'\<rparr>)
           else if m_streamType s = VideoPreview
           then (stopped, s\<lparr>calls := calls s @ [StopPreviewAsync hr], m_mediaCapture := Some cap'\<rparr>)
           else (Normal, s)
      else (Normal, s))"

text \<open>
  The stop sequence. The stop event is set only when the end is reached; the final
  resumption on the calling thread changes no member.
\<close>

definition StopPreviewCoroutine :: "environment \<Rightarrow> CaptureEngine \<Rightarrow> completion \<times> CaptureEngine" where
  "StopPreviewCoroutine env s =
     (let s1 = ResetPayloadHandler s;
          s2 = (if m_mediaSink s1 \<noteq> None then s1\<lparr>m_mediaSink := None\<rparr> else s1);
          r = (case m_mediaCapture s2 of
                 None \<Rightarrow> (Normal, s2)
               | Some cap \<Rightarrow>
                   (case StopStream env cap s2 of
                      (Thrown hr, s3) \<Rightarrow> (Thrown hr, s3)
                    | (Normal, s3) \<Rightarrow> ReleaseMediaCaptureAsync env s3))
      in case r of
           (Thrown hr, s4) \<Rightarrow> (Thrown hr, s4)
         | (Normal, s4) \<Rightarrow> (Normal, s4\<lparr>m_stopPreviewEventHandle := True\<rparr>))"

section \<open>Steps of the engine\<close>

text \<open>
  The members \<open>m_startPreviewOp\<close> and \<open>m_stopPreviewOp\<close> are assigned in four places
  only, each inside the critical section: the two calls and the two completion handlers.
  Every other piece of code (the coroutine bodies, the payload delegates, the setters,
  the release of the device resources, the flag assignment of \<open>Shutdown\<close>) leaves both
  members as they are, except that an action that finishes changes its status; this is
  the step \<open>other\<close>. \<open>Shutdown\<close> is an \<open>other\<close> step, its call of \<open>StopPreview\<close>, and
  another \<open>other\<close> step.
\<close>

inductive engine_step :: "CaptureEngine \<Rightarrow> CaptureEngine \<Rightarrow> bool" where
  call_start: "engine_step s (snd (StartPreview env w h enableAudio enableMrc s))"
| call_stop: "engine_step s (snd (StopPreview s))"
| start_completed: "engine_step s (StartPreview_Completed status s)"
| stop_completed: "engine_step s (StopPreview_Completed status s)"
| other: "(m_startPreviewOp s' = None) = (m_startPreviewOp s = None) \<Longrightarrow>
          (m_stopPreviewOp s' = None) = (m_stopPreviewOp s = None) \<Longrightarrow> engine_step s s'"

inductive reachable :: "CaptureEngine \<Rightarrow> bool" where
  initial: "reachable CaptureEngine_init"
| step: "reachable s \<Longrightarrow> engine_step s s' \<Longrightarrow> reachable s'"

text \<open>What the waits of \<open>Shutdown\<close> may do to the two handles: change a status, no more.\<close>

definition keeps_handles :: "CaptureEngine \<Rightarrow> CaptureEngine \<Rightarrow> bool" where
  "keeps_handles s s' =
     ((m_startPreviewOp s' = None) = (m_startPreviewOp s = None) \<and>
      (m_stopPreviewOp s' = None) = (m_stopPreviewOp s = None))"

definition at_most_one_op :: "CaptureEngine \<Rightarrow> bool" where
  "at_most_one_op s = (m_startPreviewOp s = None \<or> m_stopPreviewOp s = None)"

section \<open>Observations on the logs\<close>

fun is_texture_allocation :: "ext_call \<Rightarrow> bool" where
  "is_texture_allocation (SharedTexture_Create w h hr) = SUCCEEDED hr"
| "is_texture_allocation _ = False"

fun is_video_copy :: "ext_call \<Rightarrow> bool" where
  "is_video_copy (CopySample g hr) = (g = MFMediaType_Video \<and> SUCCEEDED hr)"
| "is_video_copy _ = False"

fun is_transform_update :: "ext_call \<Rightarrow> bool" where
  "is_transform_update (UpdateTransforms hr) = SUCCEEDED hr"
| "is_transform_update _ = False"

fun is_transform_failure :: "ext_call \<Rightarrow> bool" where
  "is_transform_failure (UpdateTransforms hr) = FAILED hr"
| "is_transform_failure _ = False"

definition is_video_frame_ready :: "sink_call \<Rightarrow> bool" where
  "is_video_frame_ready c =
     (case notified c of Capture st \<Rightarrow> stateType st = PreviewVideoFrame | Failure \<Rightarrow> False)"

definition texture_allocations :: "CaptureEngine \<Rightarrow> nat" where
  "texture_allocations s = length (filter is_texture_allocation (calls s))"

definition video_notifications :: "CaptureEngine \<Rightarrow> nat" where
  "video_notifications s = length (filter is_video_frame_ready (sinkCalls s))"

text \<open>The calls and the sink calls that a step from \<open>s\<close> to \<open>s'\<close> added.\<close>

definition new_calls :: "CaptureEngine \<Rightarrow> CaptureEngine \<Rightarrow> ext_call list" where
  "new_calls s s' = drop (length (calls s)) (calls s')"

definition new_sink_calls :: "CaptureEngine \<Rightarrow> CaptureEngine \<Rightarrow> sink_call list" where
  "new_sink_calls s s' = drop (length (sinkCalls s)) (sinkCalls s')"

fun is_buffer_creation :: "ext_call \<Rightarrow> bool" where
  "is_buffer_creation (MFCreateMemoryBuffer n hr) = SUCCEEDED hr"
| "is_buffer_creation _ = False"

definition audio_allocations :: "CaptureEngine \<Rightarrow> nat" where
  "audio_allocations s = length (filter is_buffer_creation (calls s))"

text \<open>
  A delivery of a run whose video payloads all report the width \<open>w\<close> and the height
  \<open>h\<close>; payloads of another kind, and deliveries the delegate ignores, are allowed.
\<close>

fun same_video_size :: "32 word \<Rightarrow> 32 word \<Rightarrow> delivery \<Rightarrow> bool" where
  "same_video_size w h (env, sender, payload) =
     (case payload of
        None \<Rightarrow> True
      | Some p \<Rightarrow> majorTypeOf p = MFMediaType_Video \<longrightarrow> encodingProperties p = Some (w, h))"

text \<open>
  The answers under which the video branch gets through its \<open>IFV\<close> checks, and a video
  frame of the size \<open>w\<close> by \<open>h\<close> sent by the handler \<open>hdl\<close> under such answers.
\<close>

definition steps_succeed :: "environment \<Rightarrow> bool" where
  "steps_succeed env =
     (unityDeviceAlive env \<and> \<not> FAILED (hrQueryInterface env) \<and> \<not> FAILED (hrGetAdapter env) \<and>
      \<not> FAILED (hrCreateMediaDevice env) \<and> \<not> FAILED (hrMFCreateDXGIDeviceManager env) \<and>
      \<not> FAILED (hrResetDevice env) \<and> \<not> FAILED (hrSharedTextureCreate env) \<and>
      \<not> FAILED (hrCopySample env))"

fun good_frame :: "nat \<Rightarrow> 32 word \<Rightarrow> 32 word \<Rightarrow> delivery \<Rightarrow> bool" where
  "good_frame hdl w h (env, sender, payload) =
     (sender = hdl \<and> steps_succeed env \<and>
      (case payload of
         None \<Rightarrow> False
       | Some p \<Rightarrow> majorTypeOf p = MFMediaType_Video \<and> streamSample p \<noteq> None \<and>
                   encodingProperties p = Some (w, h)))"



text \<open>
  The effects that are installed, in the order in which \<open>RemoveMrcEffectsAsync\<close> visits
  their handles, and the removals attempted on such a list when an exception ends the
  sequence at the first removal that fails.
\<close>

definition installed_effects :: "CaptureEngine \<Rightarrow> nat list" where
  "installed_effects s =
     (case m_mrcAudioEffect s of None \<Rightarrow> [] | Some e \<Rightarrow> [e]) @
     (case m_mrcPreviewEffect s of None \<Rightarrow> [] | Some e \<Rightarrow> [e]) @
     (case m_mrcVideoEffect s of None \<Rightarrow> [] | Some e \<Rightarrow> [e])"

fun attempted :: "environment \<Rightarrow> nat list \<Rightarrow> nat list" where
  "attempted env [] = []"
| "attempted env (e # es) = e # (if FAILED (hrRemoveEffect env e) then [] else attempted env es)"

section \<open>Concrete inputs\<close>

text \<open>An environment in which every external call succeeds.\<close>

definition env_ok :: environment where
  "env_ok = \<lparr>unityDeviceAlive = True, hrQueryInterface = S_OK, hrGetAdapter = S_OK,
     hrCreateMediaDevice = S_OK, hrMFCreateDXGIDeviceManager = S_OK, hrResetDevice = S_OK,
     newResetToken = 1, hrGetTotalLength = S_OK, hrMFCreateMemoryBuffer = S_OK,
     hrMFCreateSample = S_OK, hrAddBuffer = S_OK, hrCopySample = S_OK,
     hrSharedTextureCreate = S_OK, hrUpdateTransforms = S_OK, poseWorld = Matrix 1,
     poseProjection = Matrix 2, hrRemoveEffect = (\<lambda>_. S_OK), hrStopStream = S_OK\<rparr>"

definition video_payload :: "32 word \<Rightarrow> 32 word \<Rightarrow> 8 word list \<Rightarrow> Payload" where
  "video_payload w h bytes = \<lparr>mediaStreamSample = Some (Some MFMediaType_Video),
     streamSample = Some \<lparr>sampleData = bytes\<rparr>, encodingProperties = Some (w, h)\<rparr>"


text \<open>A freshly constructed engine on which \<open>Shutdown\<close> has run; neither wait is reached.\<close>

definition after_shutdown :: CaptureEngine where
  "after_shutdown = Shutdown id id CaptureEngine_init"

definition busy_after_shutdown :: CaptureEngine where
  "busy_after_shutdown = snd (StopPreview after_shutdown)"

text \<open>
  The background stop coroutine runs to its end: the action's status becomes that of the
  coroutine's completion. Its \<open>Completed\<close> handler has not run yet; it needs the
  critical section.
\<close>

definition stop_coroutine_finishes :: "environment \<Rightarrow> CaptureEngine \<Rightarrow> CaptureEngine" where
  "stop_coroutine_finishes env s =
     (case StopPreviewCoroutine env s of
        (c, s') \<Rightarrow> s'\<lparr>m_stopPreviewOp := map_option (\<lambda>_. status_of c) (m_stopPreviewOp s')\<rparr>)"

text \<open>
  \<open>StopPreview\<close> on a fresh engine, and \<open>Shutdown\<close> called while that stop is in flight
  (the order in which the managed wrapper's \<open>OnDisable\<close> issues them): \<open>Shutdown\<close> waits
  for the stop event, during which the stop coroutine finishes.
\<close>

definition stop_in_flight :: CaptureEngine where
  "stop_in_flight = snd (StopPreview CaptureEngine_init)"

definition shut_down_while_stopping :: CaptureEngine where
  "shut_down_while_stopping = Shutdown id (stop_coroutine_finishes env_ok) stop_in_flight"

definition start_in_flight :: CaptureEngine where
  "start_in_flight = snd (StartPreview env_ok 1280 720 False False CaptureEngine_init)"

text \<open>
  Two payload handlers installed one after the other on a fresh engine, through the
  setter.
\<close>

definition first_handler_bound :: CaptureEngine where
  "first_handler_bound = PayloadHandler_install 1 CaptureEngine_init"

definition second_handler_bound :: CaptureEngine where
  "second_handler_bound = PayloadHandler_install 2 first_handler_bound"

text \<open>
  A 1280 by 720 video frame from handler 1; an environment in which copying the sample
  fails; the engine after a first frame whose copy failed, and after a second frame that
  went through.
\<close>

definition frame_720p :: delivery where
  "frame_720p = (env_ok, 1, Some (video_payload 1280 720 [1, 2, 3]))"

definition env_copy_fails :: environment where
  "env_copy_fails = env_ok\<lparr>hrCopySample := E_FAIL\<rparr>"

definition frame_copy_failed :: CaptureEngine where
  "frame_copy_failed =
     OnStreamPayload env_copy_fails 1 (Some (video_payload 1280 720 [1, 2, 3])) first_handler_bound"

definition frame_after_failure :: CaptureEngine where
  "frame_after_failure = deliver frame_720p frame_copy_failed"

text \<open>
  An engine with a coordinate system set, and a first frame delivered while
  \<open>UpdateTransforms\<close> fails.
\<close>

definition env_transform_fails :: environment where
  "env_transform_fails = env_ok\<lparr>hrUpdateTransforms := E_FAIL\<rparr>"

definition tracking_engine :: CaptureEngine where
  "tracking_engine = AppCoordinateSystem_set (Some 7) first_handler_bound"

definition frame_untracked :: CaptureEngine where
  "frame_untracked =
     OnStreamPayload env_transform_fails 1 (Some (video_payload 1280 720 [1, 2, 3])) tracking_engine"

text \<open>
  A session with the three effects installed, and an environment in which removing the
  audio effect fails.
\<close>

definition session_with_effects :: CaptureEngine where
  "session_with_effects = CaptureEngine_init\<lparr>m_mediaCapture := Some \<lparr>cameraStreaming = True\<rparr>,
     m_mrcAudioEffect := Some 11, m_mrcPreviewEffect := Some 12, m_mrcVideoEffect := Some 13\<rparr>"

definition env_audio_removal_fails :: environment where
  "env_audio_removal_fails = env_ok\<lparr>hrRemoveEffect := (\<lambda>e. if e = 11 then E_FAIL else S_OK)\<rparr>"












section \<open>Basic facts\<close>

lemma FAILED_E_ABORT: "FAILED E_ABORT"
  by (simp add: FAILED_def E_ABORT_def)

lemma StartPreview_busy:
  "m_startPreviewOp s \<noteq> None \<or> m_stopPreviewOp s \<noteq> None \<Longrightarrow>
   StartPreview env w h a m s = (E_ABORT, s)"
  by (simp add: StartPreview_def FAILED_E_ABORT)

lemma StopPreview_busy:
  "m_startPreviewOp s \<noteq> None \<or> m_stopPreviewOp s \<noteq> None \<Longrightarrow> StopPreview s = (E_ABORT, s)"
  by (simp add: StopPreview_def FAILED_E_ABORT)

lemma StopPreview_idle:
  "m_startPreviewOp s = None \<Longrightarrow> m_stopPreviewOp s = None \<Longrightarrow>
   StopPreview s = (S_OK, s\<lparr>m_stopPreviewEventHandle := False, m_stopPreviewOp := Some Started\<rparr>)"
  by (simp add: StopPreview_def)

lemma CreateDeviceResources_ops:
  "m_startPreviewOp (snd (CreateDeviceResources env s)) = m_startPreviewOp s \<and>
   m_stopPreviewOp (snd (CreateDeviceResources env s)) = m_stopPreviewOp s"
  by (simp add: CreateDeviceResources_def)

lemma ResetPayloadHandler_frame:
  "m_startPreviewOp (ResetPayloadHandler s) = m_startPreviewOp s"
  "m_stopPreviewOp (ResetPayloadHandler s) = m_stopPreviewOp s"
  "m_mediaCapture (ResetPayloadHandler s) = m_mediaCapture s"
  "m_mediaSink (ResetPayloadHandler s) = m_mediaSink s"
  "m_isShutdown (ResetPayloadHandler s) = m_isShutdown s"
  "calls (ResetPayloadHandler s) = calls s"
  "sinkCalls (ResetPayloadHandler s) = sinkCalls s"
  "m_audioSample (ResetPayloadHandler s) = m_audioSample s"
  "m_sharedVideoTexture (ResetPayloadHandler s) = m_sharedVideoTexture s"
  "m_mediaDevice (ResetPayloadHandler s) = m_mediaDevice s"
  "m_dxgiDeviceManager (ResetPayloadHandler s) = m_dxgiDeviceManager s"
  "m_payloadHandler (ResetPayloadHandler s) = None"
  by (simp_all add: ResetPayloadHandler_def Let_def split: option.splits)

lemma after_shutdown_fields:
  "m_isShutdown after_shutdown" "m_startPreviewOp after_shutdown = None"
  "m_stopPreviewOp after_shutdown = None" "m_mediaCapture after_shutdown = None"
  by (simp_all add: after_shutdown_def Shutdown_def CaptureEngine_init_def Let_def
        ReleaseDeviceResources_def)

lemma stop_in_flight_eq:
  "stop_in_flight = CaptureEngine_init\<lparr>m_stopPreviewEventHandle := False, m_stopPreviewOp := Some Started\<rparr>"
  by (simp add: stop_in_flight_def StopPreview_def CaptureEngine_init_def)

lemma shut_down_while_stopping_eq:
  "shut_down_while_stopping = CaptureEngine_init\<lparr>m_isShutdown := True, m_stopPreviewOp := Some Completed\<rparr>"
  by (simp add: shut_down_while_stopping_def Shutdown_def stop_in_flight_eq Let_def
        stop_coroutine_finishes_def StopPreviewCoroutine_def ResetPayloadHandler_def
        ReleaseDeviceResources_def status_of_def CaptureEngine_init_def)

lemma start_in_flight_eq:
  "start_in_flight = CaptureEngine_init\<lparr>m_startPreviewEventHandle := False,
     m_mediaDevice := Some 1, m_dxgiDeviceManager := Some 2, m_resetToken := 1,
     nextObject := 3, m_startPreviewOp := Some Started\<rparr>"
  by (simp add: start_in_flight_def StartPreview_def CreateDeviceResources_def Let_def
        CaptureEngine_init_def env_ok_def FAILED_def S_OK_def)

section \<open>Mutual exclusion of Start and Stop\<close>

lemma StartPreview_keeps_one:
  "at_most_one_op s \<Longrightarrow> at_most_one_op (snd (StartPreview env w h a m s))"
  by (simp add: at_most_one_op_def StartPreview_def Let_def case_prod_beta FAILED_E_ABORT
        CreateDeviceResources_ops)

lemma StopPreview_keeps_one: "at_most_one_op s \<Longrightarrow> at_most_one_op (snd (StopPreview s))"
  by (auto simp: at_most_one_op_def StopPreview_def FAILED_E_ABORT)

lemma Completed_keeps_one:
  "at_most_one_op s \<Longrightarrow> at_most_one_op (StartPreview_Completed st s)"
  "at_most_one_op s \<Longrightarrow> at_most_one_op (StopPreview_Completed st s)"
  by (simp_all add: at_most_one_op_def StartPreview_Completed_def StopPreview_Completed_def
        Let_def Failed_def Callback_def)

lemma engine_step_keeps_one: "engine_step s s' \<Longrightarrow> at_most_one_op s \<Longrightarrow> at_most_one_op s'"
proof (induction rule: engine_step.induct)
  case (other s' s)
  then show ?case by (simp add: at_most_one_op_def)
qed (simp_all add: StartPreview_keeps_one StopPreview_keeps_one Completed_keeps_one)

lemma reachable_at_most_one_op: "reachable s \<Longrightarrow> at_most_one_op s"
proof (induction rule: reachable.induct)
  case initial
  show ?case by (simp add: at_most_one_op_def CaptureEngine_init_def)
next
  case (step s s')
  then show ?case by (simp add: engine_step_keeps_one)
qed

text \<open>
  C4. A call of \<open>StartPreview\<close> or \<open>StopPreview\<close> made while the start handle or the stop
  handle is non-null returns \<open>E_ABORT\<close>, a failure code, at once, and the engine is
  exactly as before: the event is not reset, no device resource is created, no coroutine
  is launched and no handle is set.
\<close>

theorem busy_rejected:
  assumes "m_startPreviewOp s \<noteq> None \<or> m_stopPreviewOp s \<noteq> None"
  shows "StartPreview env w h enableAudio enableMrc s = (E_ABORT, s) \<and> StopPreview s = (E_ABORT, s)
     \<and> FAILED E_ABORT"
  using assms by (simp add: StartPreview_busy StopPreview_busy FAILED_E_ABORT)

theorem busy_rejected_witness:
  "StartPreview env_ok 1280 720 False False stop_in_flight = (E_ABORT, stop_in_flight)
   \<and> StopPreview stop_in_flight = (E_ABORT, stop_in_flight)
   \<and> m_stopPreviewOp stop_in_flight = Some Started
   \<and> FAILED E_ABORT"
proof -
  have busy: "m_stopPreviewOp stop_in_flight = Some Started"
    by (simp add: stop_in_flight_eq)
  then have "m_startPreviewOp stop_in_flight \<noteq> None \<or> m_stopPreviewOp stop_in_flight \<noteq> None"
    by simp
  from busy_rejected [OF this, of env_ok 1280 720 False False] busy show ?thesis
    by simp
qed

text \<open>
  C3, as stated, fails: on an engine that \<open>Shutdown\<close> has marked shut down, with no
  handle outstanding, \<open>StopPreview\<close> returns \<open>S_OK\<close> and sets the stop handle.
\<close>

theorem stop_accepted_after_shutdown:
  "m_isShutdown after_shutdown \<and> fst (StopPreview after_shutdown) = S_OK
   \<and> m_stopPreviewOp after_shutdown = None
   \<and> m_stopPreviewOp (snd (StopPreview after_shutdown)) = Some Started
   \<and> snd (StopPreview after_shutdown) \<noteq> after_shutdown"
proof -
  have "m_stopPreviewOp (snd (StopPreview after_shutdown)) = Some Started"
    by (simp add: StopPreview_def after_shutdown_fields)
  moreover from this have "snd (StopPreview after_shutdown) \<noteq> after_shutdown"
    using after_shutdown_fields(3) by auto
  moreover have "fst (StopPreview after_shutdown) = S_OK"
    by (simp add: StopPreview_def after_shutdown_fields)
  ultimately show ?thesis by (simp add: after_shutdown_fields)
qed

text \<open>
  C3, amended. With the shutdown flag set, a call of \<open>StartPreview\<close> or \<open>StopPreview\<close> is
  rejected with \<open>E_ABORT\<close> and no change of state when a start or stop handle is
  non-null; when both handles are null the flag is not consulted and \<open>StopPreview\<close> is
  accepted as before shutdown: it resets the stop event and sets the stop handle.
\<close>

theorem shutdown_flag_not_consulted:
  assumes "m_isShutdown s"
  shows "(m_startPreviewOp s \<noteq> None \<or> m_stopPreviewOp s \<noteq> None \<longrightarrow>
            StartPreview env w h enableAudio enableMrc s = (E_ABORT, s) \<and> StopPreview s = (E_ABORT, s))
       \<and> (m_startPreviewOp s = None \<and> m_stopPreviewOp s = None \<longrightarrow>
            StopPreview s =
              (S_OK, s\<lparr>m_stopPreviewEventHandle := False, m_stopPreviewOp := Some Started\<rparr>))"
  by (simp add: StartPreview_busy StopPreview_busy StopPreview_idle)

theorem shutdown_flag_not_consulted_witness:
  "m_isShutdown busy_after_shutdown
   \<and> StartPreview env_ok 1280 720 False False busy_after_shutdown = (E_ABORT, busy_after_shutdown)
   \<and> StopPreview busy_after_shutdown = (E_ABORT, busy_after_shutdown)
   \<and> m_isShutdown after_shutdown
   \<and> StopPreview after_shutdown =
       (S_OK, after_shutdown\<lparr>m_stopPreviewEventHandle := False, m_stopPreviewOp := Some Started\<rparr>)"
proof -
  have a: "m_isShutdown after_shutdown"
    "m_startPreviewOp after_shutdown = None \<and> m_stopPreviewOp after_shutdown = None"
    by (simp_all add: after_shutdown_fields)
  have b: "m_isShutdown busy_after_shutdown"
    "m_startPreviewOp busy_after_shutdown \<noteq> None \<or> m_stopPreviewOp busy_after_shutdown \<noteq> None"
    by (simp_all add: busy_after_shutdown_def StopPreview_def after_shutdown_fields)
  from shutdown_flag_not_consulted [OF a(1), of env_ok 1280 720 False False]
       shutdown_flag_not_consulted [OF b(1), of env_ok 1280 720 False False] a b
  show ?thesis by blast
qed

lemma completion_ignores_shutdown_flag:
  "sinkCalls (StartPreview_Completed status (s\<lparr>m_isShutdown := b\<rparr>)) =
     sinkCalls (StartPreview_Completed status s)"
  "sinkCalls (StopPreview_Completed status (s\<lparr>m_isShutdown := b\<rparr>)) =
     sinkCalls (StopPreview_Completed status s)"
  by (simp_all add: StartPreview_Completed_def StopPreview_Completed_def Let_def Failed_def
        Callback_def)

text \<open>
  C2, at an input where the code departs from it. \<open>StopPreview\<close> is called on a fresh
  engine and \<open>Shutdown\<close> runs while the stop is in
  flight. When \<open>Shutdown\<close> has returned the engine is marked shut down, nothing has reached
  the sink, and the action has completed. Its \<open>Completed\<close> handler then runs: it does not
  read the shutdown flag and hands the preview-stopped notification to the sink.
\<close>

theorem notification_after_shutdown:
  "m_isShutdown shut_down_while_stopping
   \<and> m_stopPreviewOp shut_down_while_stopping = Some Completed
   \<and> sinkCalls shut_down_while_stopping = []
   \<and> sinkCalls (StopPreview_Completed Completed shut_down_while_stopping) =
       [\<lparr>notified = Capture (zero_capture_state PreviewStopped), startOpSeen = False, stopOpSeen = False\<rparr>]
   \<and> m_isShutdown (StopPreview_Completed Completed shut_down_while_stopping)"
  by (simp add: shut_down_while_stopping_eq StopPreview_Completed_def Let_def Callback_def
        CaptureEngine_init_def)

text \<open>
  C6. In every reachable state at most one of the start handle and the stop handle is
  non-null; and each completion handler leaves its handle null, and whatever it hands to
  the sink is handed over with that handle already null.
\<close>

theorem one_operation_at_a_time:
  "(reachable s \<longrightarrow> at_most_one_op s)
   \<and> m_startPreviewOp (StartPreview_Completed status s) = None
   \<and> (\<forall>c \<in> set (new_sink_calls s (StartPreview_Completed status s)). \<not> startOpSeen c)
   \<and> m_stopPreviewOp (StopPreview_Completed status s) = None
   \<and> (\<forall>c \<in> set (new_sink_calls s (StopPreview_Completed status s)). \<not> stopOpSeen c)"
  by (simp add: reachable_at_most_one_op new_sink_calls_def StartPreview_Completed_def
        StopPreview_Completed_def Let_def Failed_def Callback_def)

theorem one_operation_at_a_time_witness:
  "reachable start_in_flight \<and> at_most_one_op start_in_flight
   \<and> m_startPreviewOp start_in_flight = Some Started
   \<and> m_startPreviewOp (StartPreview_Completed Completed start_in_flight) = None
   \<and> new_sink_calls start_in_flight (StartPreview_Completed Completed start_in_flight) =
       [\<lparr>notified = Capture (zero_capture_state PreviewStarted), startOpSeen = False, stopOpSeen = False\<rparr>]
   \<and> reachable stop_in_flight \<and> at_most_one_op stop_in_flight
   \<and> m_stopPreviewOp stop_in_flight = Some Started
   \<and> m_stopPreviewOp (StopPreview_Completed Error stop_in_flight) = None
   \<and> new_sink_calls stop_in_flight (StopPreview_Completed Error stop_in_flight) =
       [\<lparr>notified = Failure, startOpSeen = False, stopOpSeen = False\<rparr>]"
proof -
  have r1: "reachable start_in_flight"
    unfolding start_in_flight_def
    by (rule reachable.step [OF reachable.initial engine_step.call_start])
  have r2: "reachable stop_in_flight"
    unfolding stop_in_flight_def
    by (rule reachable.step [OF reachable.initial engine_step.call_stop])
  have n1: "new_sink_calls start_in_flight (StartPreview_Completed Completed start_in_flight) =
       [\<lparr>notified = Capture (zero_capture_state PreviewStarted), startOpSeen = False, stopOpSeen = False\<rparr>]"
    by (simp add: new_sink_calls_def StartPreview_Completed_def Let_def Callback_def
          start_in_flight_eq CaptureEngine_init_def)
  have n2: "new_sink_calls stop_in_flight (StopPreview_Completed Error stop_in_flight) =
       [\<lparr>notified = Failure, startOpSeen = False, stopOpSeen = False\<rparr>]"
    by (simp add: new_sink_calls_def StopPreview_Completed_def Let_def Failed_def
          stop_in_flight_eq CaptureEngine_init_def)
  have o: "m_startPreviewOp start_in_flight = Some Started"
    "m_stopPreviewOp stop_in_flight = Some Started"
    by (simp_all add: start_in_flight_eq stop_in_flight_eq)
  from one_operation_at_a_time [of start_in_flight Completed]
       one_operation_at_a_time [of stop_in_flight Error] r1 r2 n1 n2 o
  show ?thesis by simp
qed



section \<open>Replacing the payload handler\<close>

lemma first_handler_bound_eq:
  "first_handler_bound = CaptureEngine_init\<lparr>m_payloadHandler := Some 1,
     m_profileEventToken := 1, m_streamDescriptionEventToken := 2, m_streamMetaDataEventToken := 3,
     m_streamSampleEventToken := 5,
     handlers := (\<lambda>_. no_events)(1 := \<lparr>onMediaProfile = [1], onStreamDescription = [2],
        onStreamMetadata = [3], onStreamSample = [4], onStreamPayload = [5]\<rparr>),
     nextToken := 6\<rparr>"
  by (simp add: first_handler_bound_def PayloadHandler_install_def ResetPayloadHandler_def
        CaptureEngine_init_def Let_def OnMediaProfile_add_def OnStreamDescription_add_def
        OnStreamMetadata_add_def OnStreamSample_add_def OnStreamPayload_add_def event_add_def
        no_events_def eval_nat_numeral)

lemma first_handler_bound_fields:
  "\<not> m_isShutdown first_handler_bound" "m_payloadHandler first_handler_bound = Some 1"
  "m_sharedVideoTexture first_handler_bound = None" "m_appCoordinateSystem first_handler_bound = None"
  "m_audioSample first_handler_bound = None"
  "calls first_handler_bound = []" "sinkCalls first_handler_bound = []"
  "nextObject first_handler_bound = 1"
  by (simp_all add: first_handler_bound_eq CaptureEngine_init_def)

text \<open>
  C1, at an input where the code departs from it. Handler 1 is installed on a fresh
  engine and then replaced by handler 2. The
  setter leaves the token of the stream-payload registration in
  \<open>m_streamSampleEventToken\<close> and never assigns \<open>m_payloadEventToken\<close>, so the
  replacement revokes neither the stream-sample nor the stream-payload registration of
  handler 1: both stay registered on it. Handler 2 receives five fresh registrations.
\<close>

theorem dangling_subscriptions:
  "handlers first_handler_bound 1 = \<lparr>onMediaProfile = [1], onStreamDescription = [2],
        onStreamMetadata = [3], onStreamSample = [4], onStreamPayload = [5]\<rparr>
   \<and> m_streamSampleEventToken first_handler_bound = 5
   \<and> m_payloadEventToken first_handler_bound = 0
   \<and> m_payloadHandler second_handler_bound = Some 2
   \<and> handlers second_handler_bound 1 = \<lparr>onMediaProfile = [], onStreamDescription = [],
        onStreamMetadata = [], onStreamSample = [4], onStreamPayload = [5]\<rparr>
   \<and> handlers second_handler_bound 2 = \<lparr>onMediaProfile = [6], onStreamDescription = [7],
        onStreamMetadata = [8], onStreamSample = [9], onStreamPayload = [10]\<rparr>"
  by (simp add: second_handler_bound_def first_handler_bound_eq PayloadHandler_install_def
        ResetPayloadHandler_def CaptureEngine_init_def Let_def OnMediaProfile_add_def
        OnStreamDescription_add_def OnStreamMetadata_add_def OnStreamSample_add_def
        OnStreamPayload_add_def event_add_def event_remove_def no_events_def eval_nat_numeral)

section \<open>The video branch of the stream-payload handler\<close>

lemma SUCCEEDED_iff: "SUCCEEDED hr = (\<not> FAILED hr)"
  by (auto simp: SUCCEEDED_def FAILED_def)

lemma FAILED_simps: "FAILED E_FAIL" "\<not> FAILED S_OK" "SUCCEEDED S_OK" "\<not> SUCCEEDED E_FAIL"
  by (simp_all add: FAILED_def SUCCEEDED_def E_FAIL_def S_OK_def)

lemma CreateDeviceResources_logs:
  "calls (snd (CreateDeviceResources env s)) = calls s"
  "sinkCalls (snd (CreateDeviceResources env s)) = sinkCalls s"
  "m_sharedVideoTexture (snd (CreateDeviceResources env s)) = m_sharedVideoTexture s"
  "m_appCoordinateSystem (snd (CreateDeviceResources env s)) = m_appCoordinateSystem s"
  "m_isShutdown (snd (CreateDeviceResources env s)) = m_isShutdown s"
  "m_payloadHandler (snd (CreateDeviceResources env s)) = m_payloadHandler s"
  "m_audioSample (snd (CreateDeviceResources env s)) = m_audioSample s"
  by (simp_all add: CreateDeviceResources_def)

lemma ReallocateTexture_logs:
  "sinkCalls (snd (ReallocateTexture env w h s)) = sinkCalls s"
  "m_appCoordinateSystem (snd (ReallocateTexture env w h s)) = m_appCoordinateSystem s"
  "m_isShutdown (snd (ReallocateTexture env w h s)) = m_isShutdown s"
  "m_payloadHandler (snd (ReallocateTexture env w h s)) = m_payloadHandler s"
  "m_audioSample (snd (ReallocateTexture env w h s)) = m_audioSample s"
  by (simp_all add: ReallocateTexture_def Let_def case_prod_beta CreateDeviceResources_logs)

lemma ReallocateTexture_calls:
  "calls (snd (ReallocateTexture env w h s)) =
     calls s @ (if unityDeviceAlive env \<and> \<not> FAILED (fst (CreateDeviceResources env s))
                then [SharedTexture_Create w h (hrSharedTextureCreate env)] else [])"
  by (simp add: ReallocateTexture_def Let_def case_prod_beta CreateDeviceResources_logs)

lemma ReallocateTexture_ok:
  "fst (ReallocateTexture env w h s) =
     (unityDeviceAlive env \<and> \<not> FAILED (fst (CreateDeviceResources env s)) \<and> \<not> FAILED (hrSharedTextureCreate env))"
  by (simp add: ReallocateTexture_def Let_def case_prod_beta)

lemma ReallocateTexture_texture:
  "fst (ReallocateTexture env w h s) \<Longrightarrow>
   \<exists>t. m_sharedVideoTexture (snd (ReallocateTexture env w h s)) = Some t \<and> frameTexture t \<noteq> None \<and>
       frameTextureDescWidth t = w \<and> frameTextureDescHeight t = h"
  by (simp add: ReallocateTexture_def Let_def case_prod_beta split: if_splits)

lemma ReallocateTexture_texture':
  "fst (ReallocateTexture env w h s) \<Longrightarrow>
   \<exists>t. m_sharedVideoTexture (snd (ReallocateTexture env w h s)) = Some t \<and> frameTexture t \<noteq> None \<and>
       frameTextureDescWidth t = w \<and> frameTextureDescHeight t = h \<and> frameTextureSRV t \<noteq> None"
  by (simp add: ReallocateTexture_def Let_def case_prod_beta split: if_splits)

lemma ReallocateTexture_texture_kept:
  "\<not> fst (ReallocateTexture env w h s) \<Longrightarrow>
   m_sharedVideoTexture (snd (ReallocateTexture env w h s)) = m_sharedVideoTexture s"
  by (simp add: ReallocateTexture_def Let_def case_prod_beta CreateDeviceResources_logs split: if_splits)

text \<open>
  What one call of \<open>PublishVideoFrame\<close> adds to the two logs.
\<close>

lemma PublishVideoFrame_calls:
  "m_sharedVideoTexture s = Some t \<Longrightarrow>
   calls (PublishVideoFrame env smp b s) =
     calls s @ CopySample MFMediaType_Video (hrCopySample env) #
       (if \<not> FAILED (hrCopySample env) \<and> m_appCoordinateSystem s \<noteq> None
        then [UpdateTransforms (hrUpdateTransforms env)] else [])"
  by (simp add: PublishVideoFrame_def Let_def Callback_def)

lemma PublishVideoFrame_sinkCalls:
  "m_sharedVideoTexture s = Some t \<Longrightarrow>
   sinkCalls (PublishVideoFrame env smp b s) =
     sinkCalls s @
       (if \<not> FAILED (hrCopySample env) \<and>
           (b \<or> m_appCoordinateSystem s \<noteq> None \<and> SUCCEEDED (hrUpdateTransforms env))
        then [\<lparr>notified = Capture
                 \<lparr>stateType = PreviewVideoFrame, width = frameTextureDescWidth t,
                  height = frameTextureDescHeight t, texturePtr = frameTextureSRV t,
                  worldMatrix = (if m_appCoordinateSystem s \<noteq> None \<and> SUCCEEDED (hrUpdateTransforms env)
                                 then poseWorld env else ZeroMatrix),
                  projectionMatrix = (if m_appCoordinateSystem s \<noteq> None \<and> SUCCEEDED (hrUpdateTransforms env)
                                 then poseProjection env else ZeroMatrix)\<rparr>,
               startOpSeen = (m_startPreviewOp s \<noteq> None), stopOpSeen = (m_stopPreviewOp s \<noteq> None)\<rparr>]
        else [])"
  by (simp add: PublishVideoFrame_def Let_def Callback_def zero_capture_state_def)

lemma PublishVideoFrame_frame:
  "m_appCoordinateSystem (PublishVideoFrame env smp b s) = m_appCoordinateSystem s"
  "m_isShutdown (PublishVideoFrame env smp b s) = m_isShutdown s"
  "m_payloadHandler (PublishVideoFrame env smp b s) = m_payloadHandler s"
  "m_audioSample (PublishVideoFrame env smp b s) = m_audioSample s"
  by (simp_all add: PublishVideoFrame_def Let_def Callback_def split: option.splits)

lemma PublishVideoFrame_texture:
  "m_sharedVideoTexture s = Some t \<Longrightarrow>
   \<exists>t'. m_sharedVideoTexture (PublishVideoFrame env smp b s) = Some t' \<and>
     frameTexture t' = frameTexture t \<and> frameTextureDescWidth t' = frameTextureDescWidth t \<and>
     frameTextureDescHeight t' = frameTextureDescHeight t \<and> textureId t' = textureId t"
  by (simp add: PublishVideoFrame_def Let_def Callback_def)

lemma new_logs_append:
  "calls s' = calls s @ xs \<Longrightarrow> new_calls s s' = xs"
  "sinkCalls s' = sinkCalls s @ ys \<Longrightarrow> new_sink_calls s s' = ys"
  by (simp_all add: new_calls_def new_sink_calls_def)

lemma new_logs_same: "new_calls s s = []" "new_sink_calls s s = []"
  by (simp_all add: new_calls_def new_sink_calls_def)

lemma mismatch_cases:
  "\<not> texture_mismatch s w h \<Longrightarrow>
   \<exists>t. m_sharedVideoTexture s = Some t \<and> frameTexture t \<noteq> None \<and>
       frameTextureDescWidth t = w \<and> frameTextureDescHeight t = h"
  by (auto simp: texture_mismatch_def split: option.splits)

text \<open>
  The ways the video branch can go.
\<close>

lemma OnVideoPayload_no_properties:
  "encodingProperties p = None \<Longrightarrow> OnVideoPayload env p smp s = s"
  by (simp add: OnVideoPayload_def)

lemma OnVideoPayload_match:
  "encodingProperties p = Some (w, h) \<Longrightarrow> \<not> texture_mismatch s w h \<Longrightarrow>
   OnVideoPayload env p smp s = PublishVideoFrame env smp False s"
  by (simp add: OnVideoPayload_def)

lemma OnVideoPayload_realloc_failed:
  "encodingProperties p = Some (w, h) \<Longrightarrow> texture_mismatch s w h \<Longrightarrow>
   \<not> fst (ReallocateTexture env w h s) \<Longrightarrow>
   OnVideoPayload env p smp s = snd (ReallocateTexture env w h s)"
  by (auto simp: OnVideoPayload_def split: prod.splits)

lemma OnVideoPayload_realloc:
  "encodingProperties p = Some (w, h) \<Longrightarrow> texture_mismatch s w h \<Longrightarrow>
   fst (ReallocateTexture env w h s) \<Longrightarrow>
   OnVideoPayload env p smp s = PublishVideoFrame env smp True (snd (ReallocateTexture env w h s))"
  by (auto simp: OnVideoPayload_def split: prod.splits)

lemma OnVideoPayload_cases [case_names none match failed realloc]:
  obtains "encodingProperties p = None" "OnVideoPayload env p smp s = s"
  | w h t where "encodingProperties p = Some (w, h)" "\<not> texture_mismatch s w h"
      "m_sharedVideoTexture s = Some t" "frameTexture t \<noteq> None"
      "frameTextureDescWidth t = w" "frameTextureDescHeight t = h"
      "OnVideoPayload env p smp s = PublishVideoFrame env smp False s"
  | w h where "encodingProperties p = Some (w, h)" "texture_mismatch s w h"
      "\<not> fst (ReallocateTexture env w h s)"
      "OnVideoPayload env p smp s = snd (ReallocateTexture env w h s)"
  | w h t where "encodingProperties p = Some (w, h)" "texture_mismatch s w h"
      "fst (ReallocateTexture env w h s)"
      "m_sharedVideoTexture (snd (ReallocateTexture env w h s)) = Some t" "frameTexture t \<noteq> None"
      "frameTextureDescWidth t = w" "frameTextureDescHeight t = h" "frameTextureSRV t \<noteq> None"
      "OnVideoPayload env p smp s = PublishVideoFrame env smp True (snd (ReallocateTexture env w h s))"
proof (cases "encodingProperties p")
  case None
  then show ?thesis using that(1) by (simp add: OnVideoPayload_no_properties)
next
  case (Some wh)
  obtain w h where wh: "wh = (w, h)" by (cases wh)
  show ?thesis
  proof (cases "texture_mismatch s w h")
    case False
    with mismatch_cases obtain t where "m_sharedVideoTexture s = Some t" "frameTexture t \<noteq> None"
      "frameTextureDescWidth t = w" "frameTextureDescHeight t = h" by blast
    then show ?thesis
      using that(2) [of w h t] Some wh False by (simp add: OnVideoPayload_match)
  next
    case True
    show ?thesis
    proof (cases "fst (ReallocateTexture env w h s)")
      case False
      then show ?thesis
        using that(3) [of w h] Some wh True by (simp add: OnVideoPayload_realloc_failed)
    next
      case ok: True
      with ReallocateTexture_texture' obtain t where
        "m_sharedVideoTexture (snd (ReallocateTexture env w h s)) = Some t" "frameTexture t \<noteq> None"
        "frameTextureDescWidth t = w" "frameTextureDescHeight t = h" "frameTextureSRV t \<noteq> None"
        by blast
      then show ?thesis
        using that(4) [of w h t] Some wh True ok by (simp add: OnVideoPayload_realloc)
    qed
  qed
qed

lemma OnVideoPayload_iff:
  "list_ex is_video_frame_ready (new_sink_calls s (OnVideoPayload env p smp s)) =
     (list_ex is_video_copy (new_calls s (OnVideoPayload env p smp s)) \<and>
      (list_ex is_texture_allocation (new_calls s (OnVideoPayload env p smp s)) \<or>
       list_ex is_transform_update (new_calls s (OnVideoPayload env p smp s))))"
proof (cases "encodingProperties p")
  case None
  then show ?thesis
    by (simp add: OnVideoPayload_no_properties new_calls_def new_sink_calls_def)
next
  case (Some wh)
  obtain w h where wh: "wh = (w, h)" by (cases wh)
  show ?thesis
  proof (cases "texture_mismatch s w h")
    case False
    then obtain t where t: "m_sharedVideoTexture s = Some t"
      using mismatch_cases by blast
    have e: "OnVideoPayload env p smp s = PublishVideoFrame env smp False s"
      using Some wh False by (simp add: OnVideoPayload_match)
    show ?thesis
      unfolding e
      by (simp add: new_logs_append(1) [OF PublishVideoFrame_calls [OF t]]
            new_logs_append(2) [OF PublishVideoFrame_sinkCalls [OF t]]
            is_video_frame_ready_def SUCCEEDED_iff)
  next
    case True
    show ?thesis
    proof (cases "fst (ReallocateTexture env w h s)")
      case False
      have e: "OnVideoPayload env p smp s = snd (ReallocateTexture env w h s)"
        using Some wh True False by (simp add: OnVideoPayload_realloc_failed)
      show ?thesis
        unfolding e using False
        by (simp add: new_calls_def new_sink_calls_def ReallocateTexture_calls
              ReallocateTexture_logs ReallocateTexture_ok SUCCEEDED_iff)
    next
      case ok: True
      then obtain t where t: "m_sharedVideoTexture (snd (ReallocateTexture env w h s)) = Some t"
        using ReallocateTexture_texture by blast
      have e: "OnVideoPayload env p smp s =
          PublishVideoFrame env smp True (snd (ReallocateTexture env w h s))"
        using Some wh True ok by (simp add: OnVideoPayload_realloc)
      have c: "calls (PublishVideoFrame env smp True (snd (ReallocateTexture env w h s))) =
          calls s @ SharedTexture_Create w h (hrSharedTextureCreate env) #
            CopySample MFMediaType_Video (hrCopySample env) #
            (if \<not> FAILED (hrCopySample env) \<and> m_appCoordinateSystem s \<noteq> None
             then [UpdateTransforms (hrUpdateTransforms env)] else [])"
        using ok by (simp add: PublishVideoFrame_calls [OF t] ReallocateTexture_calls
              ReallocateTexture_logs ReallocateTexture_ok)
      show ?thesis
        unfolding e using ok
        by (simp add: new_logs_append(1) [OF c]
              new_logs_append(2) [OF PublishVideoFrame_sinkCalls [OF t, unfolded ReallocateTexture_logs]]
              is_video_frame_ready_def SUCCEEDED_iff ReallocateTexture_ok)
    qed
  qed
qed

subsection \<open>The audio branch\<close>

lemma AllocateAudioSample_present:
  "m_audioSample s = Some b \<Longrightarrow> AllocateAudioSample env smp s = (True, s)"
  by (simp add: AllocateAudioSample_def)

lemma AllocateAudioSample_absent:
  "m_audioSample s = None \<Longrightarrow>
   AllocateAudioSample env smp s =
     (if FAILED (hrGetTotalLength env) then (False, s)
      else if FAILED (hrMFCreateMemoryBuffer env) \<or> FAILED (hrMFCreateSample env) \<or> FAILED (hrAddBuffer env)
      then (False, s\<lparr>calls := calls s @ [MFCreateMemoryBuffer (totalLength smp) (hrMFCreateMemoryBuffer env)]\<rparr>)
      else (True, s\<lparr>calls := calls s @ [MFCreateMemoryBuffer (totalLength smp) (hrMFCreateMemoryBuffer env)],
                     m_audioSample := Some \<lparr>audioId = nextObject s, maxLength = totalLength smp, audioData = []\<rparr>,
                     nextObject := Suc (nextObject s)\<rparr>))"
  by (simp add: AllocateAudioSample_def Let_def)

lemma OnAudioPayload_present:
  "m_audioSample s = Some b \<Longrightarrow>
   OnAudioPayload env smp s =
     (if FAILED (hrCopySample env)
      then s\<lparr>calls := calls s @ [CopySample MFMediaType_Audio (hrCopySample env)]\<rparr>
      else Callback (zero_capture_state PreviewAudioFrame)
             (s\<lparr>calls := calls s @ [CopySample MFMediaType_Audio (hrCopySample env)],
                m_audioSample := Some (b\<lparr>audioData := sampleData smp\<rparr>)\<rparr>))"
  by (simp add: OnAudioPayload_def AllocateAudioSample_present Let_def)

lemma OnAudioPayload_absent:
  "m_audioSample s = None \<Longrightarrow>
   OnAudioPayload env smp s =
     (if FAILED (hrGetTotalLength env) then s
      else if FAILED (hrMFCreateMemoryBuffer env) \<or> FAILED (hrMFCreateSample env) \<or> FAILED (hrAddBuffer env)
      then s\<lparr>calls := calls s @ [MFCreateMemoryBuffer (totalLength smp) (hrMFCreateMemoryBuffer env)]\<rparr>
      else if FAILED (hrCopySample env)
      then s\<lparr>calls := calls s @ [MFCreateMemoryBuffer (totalLength smp) (hrMFCreateMemoryBuffer env),
                                   CopySample MFMediaType_Audio (hrCopySample env)],
             m_audioSample := Some \<lparr>audioId = nextObject s, maxLength = totalLength smp, audioData = []\<rparr>,
             nextObject := Suc (nextObject s)\<rparr>
      else Callback (zero_capture_state PreviewAudioFrame)
             (s\<lparr>calls := calls s @ [MFCreateMemoryBuffer (totalLength smp) (hrMFCreateMemoryBuffer env),
                                   CopySample MFMediaType_Audio (hrCopySample env)],
                m_audioSample := Some \<lparr>audioId = nextObject s, maxLength = totalLength smp,
                                       audioData = sampleData smp\<rparr>,
                nextObject := Suc (nextObject s)\<rparr>))"
  by (simp add: OnAudioPayload_def AllocateAudioSample_absent Let_def Callback_def)

lemma OnAudioPayload_frame:
  "m_appCoordinateSystem (OnAudioPayload env smp s) = m_appCoordinateSystem s"
  "m_isShutdown (OnAudioPayload env smp s) = m_isShutdown s"
  "m_payloadHandler (OnAudioPayload env smp s) = m_payloadHandler s"
  "m_sharedVideoTexture (OnAudioPayload env smp s) = m_sharedVideoTexture s"
  "texture_allocations (OnAudioPayload env smp s) = texture_allocations s"
  "video_notifications (OnAudioPayload env smp s) = video_notifications s"
proof -
  show "m_appCoordinateSystem (OnAudioPayload env smp s) = m_appCoordinateSystem s"
    by (cases "m_audioSample s") (simp_all add: OnAudioPayload_present OnAudioPayload_absent Callback_def)
  show "m_isShutdown (OnAudioPayload env smp s) = m_isShutdown s"
    by (cases "m_audioSample s") (simp_all add: OnAudioPayload_present OnAudioPayload_absent Callback_def)
  show "m_payloadHandler (OnAudioPayload env smp s) = m_payloadHandler s"
    by (cases "m_audioSample s") (simp_all add: OnAudioPayload_present OnAudioPayload_absent Callback_def)
  show "m_sharedVideoTexture (OnAudioPayload env smp s) = m_sharedVideoTexture s"
    by (cases "m_audioSample s") (simp_all add: OnAudioPayload_present OnAudioPayload_absent Callback_def)
  show "texture_allocations (OnAudioPayload env smp s) = texture_allocations s"
    by (cases "m_audioSample s")
      (simp_all add: OnAudioPayload_present OnAudioPayload_absent Callback_def texture_allocations_def)
  show "video_notifications (OnAudioPayload env smp s) = video_notifications s"
    by (cases "m_audioSample s")
      (simp_all add: OnAudioPayload_present OnAudioPayload_absent Callback_def
        video_notifications_def is_video_frame_ready_def zero_capture_state_def)
qed

lemma OnAudioPayload_new:
  "\<not> list_ex is_video_frame_ready (new_sink_calls s (OnAudioPayload env smp s))"
  "\<not> list_ex is_video_copy (new_calls s (OnAudioPayload env smp s))"
proof -
  show "\<not> list_ex is_video_frame_ready (new_sink_calls s (OnAudioPayload env smp s))"
    by (cases "m_audioSample s")
      (simp_all add: OnAudioPayload_present OnAudioPayload_absent Callback_def new_sink_calls_def
        is_video_frame_ready_def zero_capture_state_def)
  show "\<not> list_ex is_video_copy (new_calls s (OnAudioPayload env smp s))"
    by (cases "m_audioSample s")
      (simp_all add: OnAudioPayload_present OnAudioPayload_absent Callback_def new_calls_def)
qed

lemma OnAudioPayload_new_calls:
  "\<not> list_ex is_texture_allocation (new_calls s (OnAudioPayload env smp s))"
  "\<not> list_ex is_transform_failure (new_calls s (OnAudioPayload env smp s))"
proof -
  show "\<not> list_ex is_texture_allocation (new_calls s (OnAudioPayload env smp s))"
    by (cases "m_audioSample s")
      (simp_all add: OnAudioPayload_present OnAudioPayload_absent Callback_def new_calls_def)
  show "\<not> list_ex is_transform_failure (new_calls s (OnAudioPayload env smp s))"
    by (cases "m_audioSample s")
      (simp_all add: OnAudioPayload_present OnAudioPayload_absent Callback_def new_calls_def)
qed

lemma OnAudioPayload_mismatch:
  "texture_mismatch (OnAudioPayload env smp s) w h = texture_mismatch s w h"
  by (simp add: texture_mismatch_def OnAudioPayload_frame)



subsection \<open>Counting allocations and notifications\<close>

lemma ReallocateTexture_count:
  "texture_allocations (snd (ReallocateTexture env w h s)) =
     texture_allocations s + (if fst (ReallocateTexture env w h s) then 1 else 0)"
  "video_notifications (snd (ReallocateTexture env w h s)) = video_notifications s"
  "audio_allocations (snd (ReallocateTexture env w h s)) = audio_allocations s"
  by (simp_all add: texture_allocations_def video_notifications_def audio_allocations_def
        ReallocateTexture_calls ReallocateTexture_logs ReallocateTexture_ok SUCCEEDED_iff)

lemma PublishVideoFrame_count:
  "m_sharedVideoTexture s = Some t \<Longrightarrow>
   texture_allocations (PublishVideoFrame env smp b s) = texture_allocations s"
  "m_sharedVideoTexture s = Some t \<Longrightarrow>
   audio_allocations (PublishVideoFrame env smp b s) = audio_allocations s"
  "m_sharedVideoTexture s = Some t \<Longrightarrow>
   video_notifications (PublishVideoFrame env smp b s) =
     video_notifications s +
       (if \<not> FAILED (hrCopySample env) \<and>
           (b \<or> m_appCoordinateSystem s \<noteq> None \<and> SUCCEEDED (hrUpdateTransforms env)) then 1 else 0)"
  by (simp_all add: texture_allocations_def video_notifications_def audio_allocations_def
        PublishVideoFrame_calls PublishVideoFrame_sinkCalls is_video_frame_ready_def)

lemma OnVideoPayload_frame:
  "m_appCoordinateSystem (OnVideoPayload env p smp s) = m_appCoordinateSystem s"
  "m_isShutdown (OnVideoPayload env p smp s) = m_isShutdown s"
  "m_payloadHandler (OnVideoPayload env p smp s) = m_payloadHandler s"
  "m_audioSample (OnVideoPayload env p smp s) = m_audioSample s"
  "audio_allocations (OnVideoPayload env p smp s) = audio_allocations s"
proof -
  show "m_appCoordinateSystem (OnVideoPayload env p smp s) = m_appCoordinateSystem s"
    by (cases rule: OnVideoPayload_cases [of p env smp s])
      (simp_all add: PublishVideoFrame_frame ReallocateTexture_logs)
  show "m_isShutdown (OnVideoPayload env p smp s) = m_isShutdown s"
    by (cases rule: OnVideoPayload_cases [of p env smp s])
      (simp_all add: PublishVideoFrame_frame ReallocateTexture_logs)
  show "m_payloadHandler (OnVideoPayload env p smp s) = m_payloadHandler s"
    by (cases rule: OnVideoPayload_cases [of p env smp s])
      (simp_all add: PublishVideoFrame_frame ReallocateTexture_logs)
  show "m_audioSample (OnVideoPayload env p smp s) = m_audioSample s"
    by (cases rule: OnVideoPayload_cases [of p env smp s])
      (simp_all add: PublishVideoFrame_frame ReallocateTexture_logs)
  show "audio_allocations (OnVideoPayload env p smp s) = audio_allocations s"
    by (cases rule: OnVideoPayload_cases [of p env smp s])
      (simp_all add: PublishVideoFrame_count ReallocateTexture_count)
qed

lemma PublishVideoFrame_match:
  "m_sharedVideoTexture s = Some t \<Longrightarrow> frameTexture t \<noteq> None \<Longrightarrow>
   frameTextureDescWidth t = w \<Longrightarrow> frameTextureDescHeight t = h \<Longrightarrow>
   \<not> texture_mismatch (PublishVideoFrame env smp b s) w h"
  using PublishVideoFrame_texture [of s t env smp b] by (auto simp: texture_mismatch_def)

lemma OnVideoPayload_match_keeps:
  assumes "encodingProperties p = Some (w, h)" and "\<not> texture_mismatch s w h"
  shows "texture_allocations (OnVideoPayload env p smp s) = texture_allocations s"
    and "\<not> texture_mismatch (OnVideoPayload env p smp s) w h"
    and "m_appCoordinateSystem s = None \<Longrightarrow>
         video_notifications (OnVideoPayload env p smp s) = video_notifications s"
proof -
  from assms mismatch_cases obtain t where t: "m_sharedVideoTexture s = Some t" "frameTexture t \<noteq> None"
      "frameTextureDescWidth t = w" "frameTextureDescHeight t = h" by blast
  have e: "OnVideoPayload env p smp s = PublishVideoFrame env smp False s"
    using assms by (simp add: OnVideoPayload_match)
  show "texture_allocations (OnVideoPayload env p smp s) = texture_allocations s"
    by (simp add: e PublishVideoFrame_count [OF t(1)])
  show "\<not> texture_mismatch (OnVideoPayload env p smp s) w h"
    unfolding e by (rule PublishVideoFrame_match [OF t])
  show "video_notifications (OnVideoPayload env p smp s) = video_notifications s"
    if "m_appCoordinateSystem s = None"
    using that by (simp add: e PublishVideoFrame_count [OF t(1)])
qed

lemma OnVideoPayload_allocations:
  assumes "encodingProperties p = Some (w, h)"
  shows "texture_allocations (OnVideoPayload env p smp s) = texture_allocations s \<or>
         texture_allocations (OnVideoPayload env p smp s) = Suc (texture_allocations s) \<and>
         \<not> texture_mismatch (OnVideoPayload env p smp s) w h"
proof (cases rule: OnVideoPayload_cases [of p env smp s])
  case none
  then show ?thesis by simp
next
  case (match w' h' t)
  then show ?thesis by (simp add: PublishVideoFrame_count)
next
  case (failed w' h')
  then show ?thesis by (simp add: ReallocateTexture_count)
next
  case (realloc w' h' t)
  with assms have "w' = w" "h' = h" by simp_all
  with realloc show ?thesis
    by (simp add: PublishVideoFrame_count ReallocateTexture_count PublishVideoFrame_match)
qed

lemma OnStreamPayload_frame:
  "m_appCoordinateSystem (OnStreamPayload env sender payload s) = m_appCoordinateSystem s"
  "m_isShutdown (OnStreamPayload env sender payload s) = m_isShutdown s"
  "m_payloadHandler (OnStreamPayload env sender payload s) = m_payloadHandler s"
  by (simp_all add: OnStreamPayload_def OnVideoPayload_frame OnAudioPayload_frame split: option.splits)

lemma deliver_frame:
  "m_appCoordinateSystem (deliver d s) = m_appCoordinateSystem s"
  "m_isShutdown (deliver d s) = m_isShutdown s"
  "m_payloadHandler (deliver d s) = m_payloadHandler s"
  by (cases d; simp add: OnStreamPayload_frame)+

lemma deliver_cases [case_names ignored audio video]:
  obtains "deliver d s = s"
  | env smp where "deliver d s = OnAudioPayload env smp s"
  | env sender p smp where "d = (env, sender, Some p)" "majorTypeOf p = MFMediaType_Video"
      "streamSample p = Some smp" "\<not> m_isShutdown s" "m_payloadHandler s = Some sender"
      "deliver d s = OnVideoPayload env p smp s"
proof -
  obtain env sender payload where d: "d = (env, sender, payload)" by (cases d)
  show ?thesis
  proof (cases "m_isShutdown s \<or> Some sender \<noteq> m_payloadHandler s")
    case True
    then have "deliver d s = s" by (auto simp: d OnStreamPayload_def)
    then show ?thesis by (rule that(1))
  next
    case live: False
    show ?thesis
    proof (cases payload)
      case None
      then have "deliver d s = s" by (simp add: d OnStreamPayload_def)
      then show ?thesis by (rule that(1))
    next
      case (Some p)
      show ?thesis
      proof (cases "streamSample p")
        case None
        with Some have "deliver d s = s" by (simp add: d OnStreamPayload_def)
        then show ?thesis by (rule that(1))
      next
        case smp: (Some smp)
        consider "majorTypeOf p = MFMediaType_Audio" | "majorTypeOf p = MFMediaType_Video"
          | "majorTypeOf p \<noteq> MFMediaType_Audio" "majorTypeOf p \<noteq> MFMediaType_Video"
          by blast
        then show ?thesis
        proof cases
          case 1
          with live Some smp have "deliver d s = OnAudioPayload env smp s"
            by (simp add: d OnStreamPayload_def)
          then show ?thesis by (rule that(2))
        next
          case 2
          with live Some smp have "deliver d s = OnVideoPayload env p smp s"
            by (simp add: d OnStreamPayload_def)
          with live Some smp 2 d show ?thesis by (intro that(3) [of env sender p smp]) auto
        next
          case 3
          with live Some smp have "deliver d s = s"
            by (auto simp: d OnStreamPayload_def)
          then show ?thesis by (rule that(1))
        qed
      qed
    qed
  qed
qed

lemma deliver_match_keeps:
  assumes "same_video_size w h d" and "\<not> texture_mismatch s w h"
  shows "texture_allocations (deliver d s) = texture_allocations s \<and>
         \<not> texture_mismatch (deliver d s) w h \<and>
         (m_appCoordinateSystem s = None \<longrightarrow> video_notifications (deliver d s) = video_notifications s)"
proof (cases rule: deliver_cases [of d s])
  case ignored
  with assms show ?thesis by simp
next
  case (audio env smp)
  with assms show ?thesis by (simp add: OnAudioPayload_frame OnAudioPayload_mismatch)
next
  case (video env sender p smp)
  with assms have "encodingProperties p = Some (w, h)" by simp
  from OnVideoPayload_match_keeps [OF this assms(2)] video show ?thesis by simp
qed

lemma deliver_allocations:
  assumes "same_video_size w h d"
  shows "texture_allocations (deliver d s) = texture_allocations s \<or>
         texture_allocations (deliver d s) = Suc (texture_allocations s) \<and>
         \<not> texture_mismatch (deliver d s) w h"
proof (cases rule: deliver_cases [of d s])
  case ignored
  then show ?thesis by simp
next
  case (audio env smp)
  then show ?thesis by (simp add: OnAudioPayload_frame)
next
  case (video env sender p smp)
  with assms have "encodingProperties p = Some (w, h)" by simp
  from OnVideoPayload_allocations [OF this] video show ?thesis by simp
qed

lemma deliver_all_match_keeps:
  "\<forall>d \<in> set ds. same_video_size w h d \<Longrightarrow> \<not> texture_mismatch s w h \<Longrightarrow>
   texture_allocations (deliver_all ds s) = texture_allocations s \<and>
   (m_appCoordinateSystem s = None \<longrightarrow> video_notifications (deliver_all ds s) = video_notifications s)"
proof (induction ds arbitrary: s)
  case Nil
  show ?case by simp
next
  case (Cons d ds)
  from Cons.prems have d: "same_video_size w h d" by simp
  note k = deliver_match_keeps [OF d Cons.prems(2)]
  from Cons.prems k have "texture_allocations (deliver_all ds (deliver d s)) = texture_allocations (deliver d s) \<and>
   (m_appCoordinateSystem (deliver d s) = None \<longrightarrow>
      video_notifications (deliver_all ds (deliver d s)) = video_notifications (deliver d s))"
    by (intro Cons.IH) simp_all
  with k show ?case by (simp add: deliver_frame)
qed

lemma deliver_all_at_most_one:
  "\<forall>d \<in> set ds. same_video_size w h d \<Longrightarrow>
   texture_allocations (deliver_all ds s) \<le> Suc (texture_allocations s)"
proof (induction ds arbitrary: s)
  case Nil
  show ?case by simp
next
  case (Cons d ds)
  from Cons.prems have d: "same_video_size w h d" and ds: "\<forall>d \<in> set ds. same_video_size w h d"
    by simp_all
  from deliver_allocations [OF d, of s] show ?case
  proof
    assume "texture_allocations (deliver d s) = texture_allocations s"
    with Cons.IH [OF ds, of "deliver d s"] show ?thesis by simp
  next
    assume a: "texture_allocations (deliver d s) = Suc (texture_allocations s) \<and>
         \<not> texture_mismatch (deliver d s) w h"
    with deliver_all_match_keeps [OF ds, of "deliver d s"] show ?thesis by simp
  qed
qed

lemma steps_succeed_CreateDeviceResources:
  "steps_succeed env \<Longrightarrow> \<not> FAILED (fst (CreateDeviceResources env s))"
  by (simp add: steps_succeed_def CreateDeviceResources_def FAILED_simps)

lemma first_frame_allocates:
  assumes "\<not> m_isShutdown s" and "m_payloadHandler s = Some hdl" and "m_sharedVideoTexture s = None"
    and "m_appCoordinateSystem s = None" and "good_frame hdl w h d"
  shows "texture_allocations (deliver d s) = Suc (texture_allocations s) \<and>
         video_notifications (deliver d s) = Suc (video_notifications s) \<and>
         \<not> texture_mismatch (deliver d s) w h"
proof -
  obtain env sender payload where d: "d = (env, sender, payload)" by (cases d)
  from assms(5) obtain p smp where p: "payload = Some p" "majorTypeOf p = MFMediaType_Video"
      "streamSample p = Some smp" "encodingProperties p = Some (w, h)" "sender = hdl"
      "steps_succeed env"
    by (auto simp: d split: option.splits)
  have e: "deliver d s = OnVideoPayload env p smp s"
    using assms p by (simp add: d OnStreamPayload_def)
  have m: "texture_mismatch s w h"
    using assms by (simp add: texture_mismatch_def)
  have ok: "fst (ReallocateTexture env w h s)"
    using p(6) steps_succeed_CreateDeviceResources [OF p(6), of s]
    by (simp add: ReallocateTexture_ok) (simp add: steps_succeed_def)
  then obtain t where t: "m_sharedVideoTexture (snd (ReallocateTexture env w h s)) = Some t"
      "frameTexture t \<noteq> None" "frameTextureDescWidth t = w" "frameTextureDescHeight t = h"
    using ReallocateTexture_texture by blast
  have e2: "deliver d s = PublishVideoFrame env smp True (snd (ReallocateTexture env w h s))"
    using e p m ok by (simp add: OnVideoPayload_realloc)
  have c: "\<not> FAILED (hrCopySample env)" using p(6) by (simp add: steps_succeed_def)
  show ?thesis
    unfolding e2 using ok c
    by (simp add: PublishVideoFrame_count [OF t(1)] ReallocateTexture_count PublishVideoFrame_match [OF t])
qed

lemma frames_allocate_once:
  assumes "\<not> m_isShutdown s" and "m_payloadHandler s = Some hdl" and "m_sharedVideoTexture s = None"
    and "m_appCoordinateSystem s = None" and "good_frame hdl w h d"
    and "\<forall>x \<in> set ds. same_video_size w h x"
  shows "texture_allocations (deliver_all (d # ds) s) = Suc (texture_allocations s) \<and>
         video_notifications (deliver_all (d # ds) s) = Suc (video_notifications s)"
proof -
  note f = first_frame_allocates [OF assms(1-5)]
  from f have "\<not> texture_mismatch (deliver d s) w h" by simp
  from deliver_all_match_keeps [OF assms(6) this] f assms(4) show ?thesis
    by (simp add: deliver_frame)
qed

lemma deliver_iff:
  "list_ex is_video_frame_ready (new_sink_calls s (deliver d s)) =
     (list_ex is_video_copy (new_calls s (deliver d s)) \<and>
      (list_ex is_texture_allocation (new_calls s (deliver d s)) \<or>
       list_ex is_transform_update (new_calls s (deliver d s))))"
proof (cases rule: deliver_cases [of d s])
  case ignored
  then show ?thesis by (simp add: new_logs_same)
next
  case (audio env smp)
  then show ?thesis by (simp add: OnAudioPayload_new)
next
  case (video env sender p smp)
  then show ?thesis by (simp add: OnVideoPayload_iff)
qed

lemma frame_copy_failed_eq:
  "frame_copy_failed = first_handler_bound\<lparr>m_mediaDevice := Some 1, m_dxgiDeviceManager := Some 2,
     m_resetToken := 1,
     m_sharedVideoTexture := Some \<lparr>textureId = 3, frameTexture = Some 4,
        frameTextureDescWidth = 1280, frameTextureDescHeight = 720, frameTextureSRV = Some 5,
        mediaSampleData = [], cameraToWorldTransform = ZeroMatrix,
        cameraProjectionMatrix = ZeroMatrix\<rparr>,
     nextObject := 6,
     calls := [SharedTexture_Create 1280 720 S_OK, CopySample MFMediaType_Video E_FAIL]\<rparr>"
  by (simp add: frame_copy_failed_def first_handler_bound_eq OnStreamPayload_def video_payload_def
        majorTypeOf_def OnVideoPayload_def texture_mismatch_def ReallocateTexture_def
        CreateDeviceResources_def PublishVideoFrame_def env_copy_fails_def env_ok_def
        FAILED_simps CaptureEngine_init_def Let_def eval_nat_numeral)

lemma frame_after_failure_eq:
  "frame_after_failure = frame_copy_failed\<lparr>
     m_sharedVideoTexture := Some \<lparr>textureId = 3, frameTexture = Some 4,
        frameTextureDescWidth = 1280, frameTextureDescHeight = 720, frameTextureSRV = Some 5,
        mediaSampleData = [1, 2, 3], cameraToWorldTransform = ZeroMatrix,
        cameraProjectionMatrix = ZeroMatrix\<rparr>,
     calls := [SharedTexture_Create 1280 720 S_OK, CopySample MFMediaType_Video E_FAIL,
               CopySample MFMediaType_Video S_OK]\<rparr>"
  by (simp add: frame_after_failure_def frame_720p_def frame_copy_failed_eq first_handler_bound_eq
        OnStreamPayload_def video_payload_def
        majorTypeOf_def OnVideoPayload_def texture_mismatch_def 
        PublishVideoFrame_def env_ok_def
        FAILED_simps CaptureEngine_init_def Let_def)

lemma frame_720p_good: "good_frame 1 1280 720 frame_720p" "same_video_size 1280 720 frame_720p"
  by (simp_all add: frame_720p_def video_payload_def majorTypeOf_def steps_succeed_def env_ok_def
        FAILED_simps)

text \<open>
  C5, as stated, fails. With no coordinate system and no prior texture, a first 1280 by
  720 frame whose sample copy fails allocates the texture and raises no notification; a
  second frame of the same size, which goes through, allocates nothing and raises no
  notification either: one allocation, no notification.
\<close>

theorem allocation_without_notification:
  "m_sharedVideoTexture first_handler_bound = None
   \<and> m_appCoordinateSystem first_handler_bound = None
   \<and> texture_allocations first_handler_bound = 0
   \<and> texture_allocations frame_copy_failed = 1
   \<and> video_notifications frame_copy_failed = 0
   \<and> texture_allocations frame_after_failure = 1
   \<and> video_notifications frame_after_failure = 0"
  by (simp add: frame_after_failure_eq frame_copy_failed_eq first_handler_bound_eq
        CaptureEngine_init_def texture_allocations_def video_notifications_def FAILED_simps)

text \<open>
  C5, amended. A delivery raises the video-frame-ready notification if and only if the
  sample was copied into the texture and, in that delivery, the texture was allocated or
  the transforms were updated. A run of deliveries whose video payloads all have one size
  allocates the texture at most once. With no coordinate system and no prior texture, a
  first frame of that size for which every external step succeeds, followed by any
  deliveries of that size, gives exactly one allocation and exactly one notification,
  both on the first frame.
\<close>

theorem video_frames_of_one_size:
  "(list_ex is_video_frame_ready (new_sink_calls s (deliver d s)) =
     (list_ex is_video_copy (new_calls s (deliver d s)) \<and>
      (list_ex is_texture_allocation (new_calls s (deliver d s)) \<or>
       list_ex is_transform_update (new_calls s (deliver d s)))))
   \<and> ((\<forall>x \<in> set ds. same_video_size w h x) \<longrightarrow>
        texture_allocations (deliver_all ds s) \<le> Suc (texture_allocations s))
   \<and> (\<not> m_isShutdown s \<and> m_payloadHandler s = Some hdl \<and> m_sharedVideoTexture s = None \<and>
       m_appCoordinateSystem s = None \<and> good_frame hdl w h d \<and> (\<forall>x \<in> set ds. same_video_size w h x) \<longrightarrow>
        texture_allocations (deliver d s) = Suc (texture_allocations s) \<and>
        video_notifications (deliver d s) = Suc (video_notifications s) \<and>
        texture_allocations (deliver_all (d # ds) s) = Suc (texture_allocations s) \<and>
        video_notifications (deliver_all (d # ds) s) = Suc (video_notifications s))"
  using deliver_iff [of s d] deliver_all_at_most_one [of ds w h s]
    first_frame_allocates [of s hdl w h d] frames_allocate_once [of s hdl w h d ds]
  by blast

theorem video_frames_of_one_size_witness:
  "good_frame 1 1280 720 frame_720p
   \<and> texture_allocations (deliver frame_720p first_handler_bound) = 1
   \<and> video_notifications (deliver frame_720p first_handler_bound) = 1
   \<and> texture_allocations (deliver_all (replicate 5 frame_720p) first_handler_bound) = 1
   \<and> video_notifications (deliver_all (replicate 5 frame_720p) first_handler_bound) = 1
   \<and> list_ex is_video_frame_ready (new_sink_calls first_handler_bound (deliver frame_720p first_handler_bound))
   \<and> list_ex is_texture_allocation (new_calls first_handler_bound (deliver frame_720p first_handler_bound))"
proof -
  have five: "replicate 5 frame_720p = frame_720p # replicate 4 frame_720p"
    by (simp add: eval_nat_numeral)
  have rest: "\<forall>x \<in> set (replicate 4 frame_720p). same_video_size 1280 720 x"
    by (simp add: frame_720p_good)
  have zero: "texture_allocations first_handler_bound = 0" "video_notifications first_handler_bound = 0"
    by (simp_all add: texture_allocations_def video_notifications_def first_handler_bound_fields)
  have a: "new_calls first_handler_bound (deliver frame_720p first_handler_bound) =
      [SharedTexture_Create 1280 720 S_OK, CopySample MFMediaType_Video S_OK]"
    by (simp add: frame_720p_def first_handler_bound_eq
        OnStreamPayload_def video_payload_def new_calls_def
        majorTypeOf_def OnVideoPayload_def texture_mismatch_def ReallocateTexture_def
        CreateDeviceResources_def PublishVideoFrame_def env_ok_def Callback_def
        FAILED_simps CaptureEngine_init_def Let_def)
  note t = video_frames_of_one_size
      [of first_handler_bound frame_720p "replicate 4 frame_720p" 1280 720 1]
  from t a have n: "list_ex is_video_frame_ready
      (new_sink_calls first_handler_bound (deliver frame_720p first_handler_bound))"
    by (simp add: FAILED_simps)
  from t rest first_handler_bound_fields frame_720p_good
  have "texture_allocations (deliver frame_720p first_handler_bound) = Suc (texture_allocations first_handler_bound) \<and>
        video_notifications (deliver frame_720p first_handler_bound) = Suc (video_notifications first_handler_bound) \<and>
        texture_allocations (deliver_all (frame_720p # replicate 4 frame_720p) first_handler_bound) =
          Suc (texture_allocations first_handler_bound) \<and>
        video_notifications (deliver_all (frame_720p # replicate 4 frame_720p) first_handler_bound) =
          Suc (video_notifications first_handler_bound)"
    by blast
  with n a zero frame_720p_good show ?thesis
    unfolding five by (simp add: FAILED_simps)
qed

lemma OnVideoPayload_transform_failure:
  assumes "list_ex is_texture_allocation (new_calls s (OnVideoPayload env p smp s))"
    and "list_ex is_transform_failure (new_calls s (OnVideoPayload env p smp s))"
  shows "\<exists>c st. new_sink_calls s (OnVideoPayload env p smp s) = [c] \<and> notified c = Capture st \<and>
           stateType st = PreviewVideoFrame \<and> worldMatrix st = ZeroMatrix \<and>
           projectionMatrix st = ZeroMatrix \<and> texturePtr st \<noteq> None \<and>
           encodingProperties p = Some (width st, height st)"
proof (cases rule: OnVideoPayload_cases [of p env smp s])
  case none
  with assms show ?thesis by (simp add: new_logs_same)
next
  case (match w h t)
  with assms(1) show ?thesis
    by (auto simp: new_logs_append(1) [OF PublishVideoFrame_calls [OF match(3)]] split: if_splits)
next
  case (failed w h)
  with assms(1) show ?thesis
    by (auto simp: new_calls_def ReallocateTexture_calls ReallocateTexture_ok SUCCEEDED_iff
          split: if_splits)
next
  case (realloc w h t)
  have c: "calls (PublishVideoFrame env smp True (snd (ReallocateTexture env w h s))) =
          calls s @ SharedTexture_Create w h (hrSharedTextureCreate env) #
            CopySample MFMediaType_Video (hrCopySample env) #
            (if \<not> FAILED (hrCopySample env) \<and> m_appCoordinateSystem s \<noteq> None
             then [UpdateTransforms (hrUpdateTransforms env)] else [])"
    using realloc(3) by (simp add: PublishVideoFrame_calls [OF realloc(4)] ReallocateTexture_calls
              ReallocateTexture_logs ReallocateTexture_ok)
  from assms(2) have f: "\<not> FAILED (hrCopySample env)" "m_appCoordinateSystem s \<noteq> None"
      "FAILED (hrUpdateTransforms env)"
    unfolding realloc(9) new_logs_append(1) [OF c] by (auto split: if_splits)
  show ?thesis
    unfolding realloc(9)
      new_logs_append(2) [OF PublishVideoFrame_sinkCalls [OF realloc(4), unfolded ReallocateTexture_logs]]
    using f realloc by (simp add: SUCCEEDED_iff)
qed

lemma frame_untracked_logs:
  "new_calls tracking_engine frame_untracked =
     [SharedTexture_Create 1280 720 S_OK, CopySample MFMediaType_Video S_OK, UpdateTransforms E_FAIL]"
  "new_sink_calls tracking_engine frame_untracked =
     [\<lparr>notified = Capture \<lparr>stateType = PreviewVideoFrame, width = 1280, height = 720,
         texturePtr = Some 5, worldMatrix = ZeroMatrix, projectionMatrix = ZeroMatrix\<rparr>,
       startOpSeen = False, stopOpSeen = False\<rparr>]"
  by (simp_all add: frame_untracked_def tracking_engine_def AppCoordinateSystem_set_def
        first_handler_bound_eq OnStreamPayload_def video_payload_def new_calls_def new_sink_calls_def
        majorTypeOf_def OnVideoPayload_def texture_mismatch_def ReallocateTexture_def
        CreateDeviceResources_def PublishVideoFrame_def env_transform_fails_def env_ok_def
        Callback_def zero_capture_state_def FAILED_simps CaptureEngine_init_def Let_def
        eval_nat_numeral)

text \<open>
  C8. A delivery in which the texture was allocated and \<open>UpdateTransforms\<close> was called
  and failed raises exactly one video-frame-ready notification; it carries the payload's
  width and height and the texture handle, and zero matrices.
\<close>

theorem transform_failure_still_publishes:
  assumes "list_ex is_texture_allocation (new_calls s (OnStreamPayload env sender payload s))"
    and "list_ex is_transform_failure (new_calls s (OnStreamPayload env sender payload s))"
  shows "\<exists>c st p. new_sink_calls s (OnStreamPayload env sender payload s) = [c] \<and>
           notified c = Capture st \<and> stateType st = PreviewVideoFrame \<and>
           worldMatrix st = ZeroMatrix \<and> projectionMatrix st = ZeroMatrix \<and>
           texturePtr st \<noteq> None \<and>
           payload = Some p \<and> encodingProperties p = Some (width st, height st)"
proof (cases rule: deliver_cases [of "(env, sender, payload)" s])
  case ignored
  with assms show ?thesis by (simp add: new_logs_same)
next
  case (audio env' smp)
  with assms show ?thesis by (simp add: OnAudioPayload_new_calls)
next
  case (video env' sender' p smp)
  with assms OnVideoPayload_transform_failure [of s env p smp] show ?thesis
    by auto
qed

theorem transform_failure_still_publishes_witness:
  "new_calls tracking_engine frame_untracked =
     [SharedTexture_Create 1280 720 S_OK, CopySample MFMediaType_Video S_OK, UpdateTransforms E_FAIL]
   \<and> new_sink_calls tracking_engine frame_untracked =
     [\<lparr>notified = Capture \<lparr>stateType = PreviewVideoFrame, width = 1280, height = 720,
         texturePtr = Some 5, worldMatrix = ZeroMatrix, projectionMatrix = ZeroMatrix\<rparr>,
       startOpSeen = False, stopOpSeen = False\<rparr>]"
proof -
  have h: "list_ex is_texture_allocation (new_calls tracking_engine
        (OnStreamPayload env_transform_fails 1 (Some (video_payload 1280 720 [1, 2, 3])) tracking_engine))"
    "list_ex is_transform_failure (new_calls tracking_engine
        (OnStreamPayload env_transform_fails 1 (Some (video_payload 1280 720 [1, 2, 3])) tracking_engine))"
    using frame_untracked_logs(1) by (simp_all add: frame_untracked_def FAILED_simps)
  from transform_failure_still_publishes [OF h] frame_untracked_logs show ?thesis
    by simp
qed

section \<open>Removing the effects\<close>

lemma RemoveMrcEffects_calls:
  "m_mediaCapture s \<noteq> None \<Longrightarrow>
   calls (snd (RemoveMrcEffectsAsync env s)) =
     calls s @ map (\<lambda>e. RemoveEffectAsync e (hrRemoveEffect env e)) (attempted env (installed_effects s))"
  by (simp add: RemoveMrcEffectsAsync_def remove_audio_def remove_preview_def remove_video_def
        RemoveEffect_def installed_effects_def Let_def split: option.splits) 

lemma RemoveMrcEffects_all_ok:
  "m_mediaCapture s \<noteq> None \<Longrightarrow> \<forall>e \<in> set (installed_effects s). SUCCEEDED (hrRemoveEffect env e) \<Longrightarrow>
   fst (RemoveMrcEffectsAsync env s) = Normal \<and>
   m_mrcAudioEffect (snd (RemoveMrcEffectsAsync env s)) = None \<and>
   m_mrcPreviewEffect (snd (RemoveMrcEffectsAsync env s)) = None \<and>
   m_mrcVideoEffect (snd (RemoveMrcEffectsAsync env s)) = None \<and>
   attempted env (installed_effects s) = installed_effects s"
  by (simp add: RemoveMrcEffectsAsync_def remove_audio_def remove_preview_def remove_video_def
        RemoveEffect_def installed_effects_def Let_def SUCCEEDED_iff split: option.splits) 

lemma RemoveMrcEffects_first_failure:
  "m_mediaCapture s \<noteq> None \<Longrightarrow> installed_effects s = es @ e # es' \<Longrightarrow>
   \<forall>x \<in> set es. SUCCEEDED (hrRemoveEffect env x) \<Longrightarrow> FAILED (hrRemoveEffect env e) \<Longrightarrow>
   fst (RemoveMrcEffectsAsync env s) = Thrown (hrRemoveEffect env e) \<and>
   attempted env (installed_effects s) = es @ [e]"
  apply (simp add: RemoveMrcEffectsAsync_def remove_audio_def remove_preview_def remove_video_def
        RemoveEffect_def installed_effects_def Let_def SUCCEEDED_iff split: option.splits)
  apply (auto simp: append_eq_Cons_conv Cons_eq_append_conv)
  done

lemma RemoveMrcEffects_cleared:
  "m_mediaCapture s \<noteq> None \<Longrightarrow>
   (m_mrcAudioEffect (snd (RemoveMrcEffectsAsync env s)) = None) =
     (\<forall>a. m_mrcAudioEffect s = Some a \<longrightarrow> SUCCEEDED (hrRemoveEffect env a))"
  "m_mediaCapture s \<noteq> None \<Longrightarrow>
   (m_mrcPreviewEffect (snd (RemoveMrcEffectsAsync env s)) = None) =
     (\<forall>p. m_mrcPreviewEffect s = Some p \<longrightarrow>
        SUCCEEDED (hrRemoveEffect env p) \<and>
        (\<forall>a. m_mrcAudioEffect s = Some a \<longrightarrow> SUCCEEDED (hrRemoveEffect env a)))"
  "m_mediaCapture s \<noteq> None \<Longrightarrow>
   (m_mrcVideoEffect (snd (RemoveMrcEffectsAsync env s)) = None) =
     (\<forall>v. m_mrcVideoEffect s = Some v \<longrightarrow>
        SUCCEEDED (hrRemoveEffect env v) \<and>
        (\<forall>p. m_mrcPreviewEffect s = Some p \<longrightarrow> SUCCEEDED (hrRemoveEffect env p)) \<and>
        (\<forall>a. m_mrcAudioEffect s = Some a \<longrightarrow> SUCCEEDED (hrRemoveEffect env a)))"
  by (auto simp: RemoveMrcEffectsAsync_def remove_audio_def remove_preview_def remove_video_def
        RemoveEffect_def Let_def SUCCEEDED_iff split: option.splits)

text \<open>
  C9, as stated, fails. With the three effects installed and the removal of the audio
  effect failing, the exception leaves the coroutine: one removal is attempted, the
  preview and the record effect are not attempted and their handles stay populated.
\<close>

theorem later_effects_skipped:
  "RemoveMrcEffectsAsync env_audio_removal_fails session_with_effects =
     (Thrown E_FAIL, session_with_effects\<lparr>calls := [RemoveEffectAsync 11 E_FAIL]\<rparr>)
   \<and> m_mrcPreviewEffect session_with_effects = Some 12
   \<and> m_mrcVideoEffect session_with_effects = Some 13"
  by (simp add: RemoveMrcEffectsAsync_def remove_audio_def RemoveEffect_def session_with_effects_def
        env_audio_removal_fails_def env_ok_def FAILED_simps CaptureEngine_init_def Let_def)

text \<open>
  C9, amended. With a session and at least one effect handle populated, the removals
  are attempted in the order audio, preview-video, record-video, and each handle is
  cleared after its removal succeeded; the first removal that fails ends the sequence
  with its error, so the effects after it are not attempted and keep their handles. When
  every removal succeeds, all installed effects are removed in that order and the three
  handles end null.
\<close>

theorem removal_in_order_until_failure:
  assumes "m_mediaCapture s \<noteq> None"
    and "m_mrcAudioEffect s \<noteq> None \<or> m_mrcPreviewEffect s \<noteq> None \<or> m_mrcVideoEffect s \<noteq> None"
  shows "calls (snd (RemoveMrcEffectsAsync env s)) =
           calls s @ map (\<lambda>e. RemoveEffectAsync e (hrRemoveEffect env e))
                       (attempted env (installed_effects s))
    \<and> ((\<forall>e \<in> set (installed_effects s). SUCCEEDED (hrRemoveEffect env e)) \<longrightarrow>
          fst (RemoveMrcEffectsAsync env s) = Normal \<and>
          attempted env (installed_effects s) = installed_effects s \<and>
          m_mrcAudioEffect (snd (RemoveMrcEffectsAsync env s)) = None \<and>
          m_mrcPreviewEffect (snd (RemoveMrcEffectsAsync env s)) = None \<and>
          m_mrcVideoEffect (snd (RemoveMrcEffectsAsync env s)) = None)
    \<and> (\<forall>es e es'. installed_effects s = es @ e # es' \<and>
          (\<forall>x \<in> set es. SUCCEEDED (hrRemoveEffect env x)) \<and> FAILED (hrRemoveEffect env e) \<longrightarrow>
          fst (RemoveMrcEffectsAsync env s) = Thrown (hrRemoveEffect env e) \<and>
          attempted env (installed_effects s) = es @ [e])
    \<and> (m_mrcAudioEffect (snd (RemoveMrcEffectsAsync env s)) = None) =
         (\<forall>a. m_mrcAudioEffect s = Some a \<longrightarrow> SUCCEEDED (hrRemoveEffect env a))
    \<and> (m_mrcPreviewEffect (snd (RemoveMrcEffectsAsync env s)) = None) =
         (\<forall>p. m_mrcPreviewEffect s = Some p \<longrightarrow>
            SUCCEEDED (hrRemoveEffect env p) \<and>
            (\<forall>a. m_mrcAudioEffect s = Some a \<longrightarrow> SUCCEEDED (hrRemoveEffect env a)))
    \<and> (m_mrcVideoEffect (snd (RemoveMrcEffectsAsync env s)) = None) =
         (\<forall>v. m_mrcVideoEffect s = Some v \<longrightarrow>
            SUCCEEDED (hrRemoveEffect env v) \<and>
            (\<forall>p. m_mrcPreviewEffect s = Some p \<longrightarrow> SUCCEEDED (hrRemoveEffect env p)) \<and>
            (\<forall>a. m_mrcAudioEffect s = Some a \<longrightarrow> SUCCEEDED (hrRemoveEffect env a)))"
proof -
  note a = assms(1)
  have 1: "calls (snd (RemoveMrcEffectsAsync env s)) =
           calls s @ map (\<lambda>e. RemoveEffectAsync e (hrRemoveEffect env e))
                       (attempted env (installed_effects s))"
    by (rule RemoveMrcEffects_calls [OF a])
  have 2: "(\<forall>e \<in> set (installed_effects s). SUCCEEDED (hrRemoveEffect env e)) \<longrightarrow>
          fst (RemoveMrcEffectsAsync env s) = Normal \<and>
          attempted env (installed_effects s) = installed_effects s \<and>
          m_mrcAudioEffect (snd (RemoveMrcEffectsAsync env s)) = None \<and>
          m_mrcPreviewEffect (snd (RemoveMrcEffectsAsync env s)) = None \<and>
          m_mrcVideoEffect (snd (RemoveMrcEffectsAsync env s)) = None"
    using RemoveMrcEffects_all_ok [OF a, of env] by blast
  have 3: "\<forall>es e es'. installed_effects s = es @ e # es' \<and>
          (\<forall>x \<in> set es. SUCCEEDED (hrRemoveEffect env x)) \<and> FAILED (hrRemoveEffect env e) \<longrightarrow>
          fst (RemoveMrcEffectsAsync env s) = Thrown (hrRemoveEffect env e) \<and>
          attempted env (installed_effects s) = es @ [e]"
    using RemoveMrcEffects_first_failure [OF a, of _ _ _ env] by blast
  from 1 2 3 RemoveMrcEffects_cleared [OF a, of env] show ?thesis by blast
qed

theorem removal_in_order_until_failure_witness:
  "installed_effects session_with_effects = [11, 12, 13]
   \<and> RemoveMrcEffectsAsync env_ok session_with_effects =
       (Normal, session_with_effects\<lparr>m_mrcAudioEffect := None, m_mrcPreviewEffect := None,
          m_mrcVideoEffect := None,
          calls := [RemoveEffectAsync 11 S_OK, RemoveEffectAsync 12 S_OK, RemoveEffectAsync 13 S_OK]\<rparr>)
   \<and> attempted env_ok (installed_effects session_with_effects) = [11, 12, 13]
   \<and> calls (snd (RemoveMrcEffectsAsync env_audio_removal_fails session_with_effects)) =
       [RemoveEffectAsync 11 E_FAIL]
   \<and> fst (RemoveMrcEffectsAsync env_audio_removal_fails session_with_effects) = Thrown E_FAIL"
proof -
  have h: "m_mediaCapture session_with_effects \<noteq> None"
    "m_mrcAudioEffect session_with_effects \<noteq> None \<or> m_mrcPreviewEffect session_with_effects \<noteq> None
      \<or> m_mrcVideoEffect session_with_effects \<noteq> None"
    by (simp_all add: session_with_effects_def)
  have i: "installed_effects session_with_effects = [11, 12, 13]"
    "installed_effects session_with_effects = [] @ 11 # [12, 13]"
    by (simp_all add: installed_effects_def session_with_effects_def)
  have ok: "RemoveMrcEffectsAsync env_ok session_with_effects =
       (Normal, session_with_effects\<lparr>m_mrcAudioEffect := None, m_mrcPreviewEffect := None,
          m_mrcVideoEffect := None,
          calls := [RemoveEffectAsync 11 S_OK, RemoveEffectAsync 12 S_OK, RemoveEffectAsync 13 S_OK]\<rparr>)"
    by (simp add: RemoveMrcEffectsAsync_def remove_audio_def remove_preview_def remove_video_def
        RemoveEffect_def session_with_effects_def env_ok_def FAILED_simps CaptureEngine_init_def Let_def)
  have s: "\<forall>e \<in> set (installed_effects session_with_effects). SUCCEEDED (hrRemoveEffect env_ok e)"
    by (simp add: env_ok_def FAILED_simps)
  have f: "FAILED (hrRemoveEffect env_audio_removal_fails 11)"
    "hrRemoveEffect env_audio_removal_fails 11 = E_FAIL" "calls session_with_effects = []"
    by (simp_all add: session_with_effects_def env_audio_removal_fails_def FAILED_simps
          CaptureEngine_init_def)
  note t1 = removal_in_order_until_failure [OF h, of env_ok]
  note t2 = removal_in_order_until_failure [OF h, of env_audio_removal_fails]
  from t1 s have a1: "attempted env_ok (installed_effects session_with_effects) =
      installed_effects session_with_effects" by blast
  from t2 i(2) f(1) have a2: "fst (RemoveMrcEffectsAsync env_audio_removal_fails session_with_effects) =
        Thrown (hrRemoveEffect env_audio_removal_fails 11) \<and>
      attempted env_audio_removal_fails (installed_effects session_with_effects) = [] @ [11]"
    by (elim conjE) (erule allE [of _ "[]"], erule allE [of _ 11], erule allE [of _ "[12, 13]"], simp)
  from t2 a2 f have "calls (snd (RemoveMrcEffectsAsync env_audio_removal_fails session_with_effects)) =
       [RemoveEffectAsync 11 E_FAIL]" by simp
  with a1 a2 i(1) ok f show ?thesis by simp
qed

section \<open>The audio sample buffer\<close>














section \<open>The other operations as steps\<close>

text \<open>
  The operations that do not assign a handle leave both handles as they are, so each is
  a step \<open>other\<close>; and \<open>Shutdown\<close>, whose waits may only see an action finish, leads
  from a reachable state to a reachable state.
\<close>

lemma OnStreamPayload_ops:
  "m_startPreviewOp (OnStreamPayload env sender payload s) = m_startPreviewOp s"
  "m_stopPreviewOp (OnStreamPayload env sender payload s) = m_stopPreviewOp s"
proof -
  have a: "m_startPreviewOp (OnAudioPayload env smp s) = m_startPreviewOp s \<and>
           m_stopPreviewOp (OnAudioPayload env smp s) = m_stopPreviewOp s" for smp
    by (cases "m_audioSample s") (simp_all add: OnAudioPayload_present OnAudioPayload_absent Callback_def)
  have r: "m_startPreviewOp (snd (ReallocateTexture env w h s)) = m_startPreviewOp s \<and>
           m_stopPreviewOp (snd (ReallocateTexture env w h s)) = m_stopPreviewOp s" for w h
    by (simp add: ReallocateTexture_def Let_def case_prod_beta CreateDeviceResources_ops)
  have p: "m_startPreviewOp (PublishVideoFrame env smp b x) = m_startPreviewOp x \<and>
           m_stopPreviewOp (PublishVideoFrame env smp b x) = m_stopPreviewOp x" for smp b x
    by (simp add: PublishVideoFrame_def Let_def Callback_def split: option.splits)
  have v: "m_startPreviewOp (OnVideoPayload env q smp s) = m_startPreviewOp s \<and>
           m_stopPreviewOp (OnVideoPayload env q smp s) = m_stopPreviewOp s" for q smp
    by (cases rule: OnVideoPayload_cases [of q env smp s]) (simp_all add: r p)
  show "m_startPreviewOp (OnStreamPayload env sender payload s) = m_startPreviewOp s"
    by (simp add: OnStreamPayload_def a v split: option.splits)
  show "m_stopPreviewOp (OnStreamPayload env sender payload s) = m_stopPreviewOp s"
    by (simp add: OnStreamPayload_def a v split: option.splits)
qed

lemma PayloadHandler_install_ops:
  "m_startPreviewOp (PayloadHandler_install h s) = m_startPreviewOp s"
  "m_stopPreviewOp (PayloadHandler_install h s) = m_stopPreviewOp s"
  by (simp_all add: PayloadHandler_install_def Let_def OnMediaProfile_add_def
        OnStreamDescription_add_def OnStreamMetadata_add_def OnStreamSample_add_def
        OnStreamPayload_add_def ResetPayloadHandler_frame split: option.splits)

lemma RemoveMrcEffectsAsync_ops:
  "m_startPreviewOp (snd (RemoveMrcEffectsAsync env s)) = m_startPreviewOp s"
  "m_stopPreviewOp (snd (RemoveMrcEffectsAsync env s)) = m_stopPreviewOp s"
  by (simp_all add: RemoveMrcEffectsAsync_def remove_audio_def remove_preview_def remove_video_def
        RemoveEffect_def Let_def split: option.splits)

lemma ReleaseMediaCaptureAsync_ops:
  "m_startPreviewOp (snd (ReleaseMediaCaptureAsync env s)) = m_startPreviewOp s"
  "m_stopPreviewOp (snd (ReleaseMediaCaptureAsync env s)) = m_stopPreviewOp s"
  using RemoveMrcEffectsAsync_ops [of env s]
  by (auto simp: ReleaseMediaCaptureAsync_def Let_def split: prod.splits completion.splits)

lemma StopStream_ops:
  "m_startPreviewOp (snd (StopStream env cap s)) = m_startPreviewOp s"
  "m_stopPreviewOp (snd (StopStream env cap s)) = m_stopPreviewOp s"
  by (simp_all add: StopStream_def Let_def)

lemma stop_and_release_ops:
  "m_startPreviewOp (snd (case StopStream env cap x of
        (Thrown hr, s3) \<Rightarrow> (Thrown hr, s3)
      | (Normal, s3) \<Rightarrow> ReleaseMediaCaptureAsync env s3)) = m_startPreviewOp x \<and>
   m_stopPreviewOp (snd (case StopStream env cap x of
        (Thrown hr, s3) \<Rightarrow> (Thrown hr, s3)
      | (Normal, s3) \<Rightarrow> ReleaseMediaCaptureAsync env s3)) = m_stopPreviewOp x"
proof -
  obtain c s3 where r: "StopStream env cap x = (c, s3)" by (cases "StopStream env cap x")
  from StopStream_ops [of env cap x] r
  have s3: "m_startPreviewOp s3 = m_startPreviewOp x" "m_stopPreviewOp s3 = m_stopPreviewOp x"
    by simp_all
  show ?thesis
    by (cases c) (simp_all add: r s3 ReleaseMediaCaptureAsync_ops)
qed

lemma StopPreviewCoroutine_ops:
  "m_startPreviewOp (snd (StopPreviewCoroutine env s)) = m_startPreviewOp s"
  "m_stopPreviewOp (snd (StopPreviewCoroutine env s)) = m_stopPreviewOp s"
proof -
  define s2 where "s2 = (if m_mediaSink (ResetPayloadHandler s) \<noteq> None
             then (ResetPayloadHandler s)\<lparr>m_mediaSink := None\<rparr> else ResetPayloadHandler s)"
  define r where "r = (case m_mediaCapture s2 of
                 None \<Rightarrow> (Normal, s2)
               | Some cap \<Rightarrow>
                   (case StopStream env cap s2 of
                      (Thrown hr, s3) \<Rightarrow> (Thrown hr, s3)
                    | (Normal, s3) \<Rightarrow> ReleaseMediaCaptureAsync env s3))"
  have s2: "m_startPreviewOp s2 = m_startPreviewOp s" "m_stopPreviewOp s2 = m_stopPreviewOp s"
    by (simp_all add: s2_def ResetPayloadHandler_frame)
  have r: "m_startPreviewOp (snd r) = m_startPreviewOp s \<and> m_stopPreviewOp (snd r) = m_stopPreviewOp s"
    unfolding r_def using stop_and_release_ops [of env _ s2] s2
    by (cases "m_mediaCapture s2") simp_all
  have e: "StopPreviewCoroutine env s =
      (case r of (Thrown hr, s4) \<Rightarrow> (Thrown hr, s4)
       | (Normal, s4) \<Rightarrow> (Normal, s4\<lparr>m_stopPreviewEventHandle := True\<rparr>))"
    by (simp only: StopPreviewCoroutine_def Let_def r_def s2_def)
  obtain c s4 where c: "r = (c, s4)" by (cases r)
  from r c have s4: "m_startPreviewOp s4 = m_startPreviewOp s" "m_stopPreviewOp s4 = m_stopPreviewOp s"
    by simp_all
  show "m_startPreviewOp (snd (StopPreviewCoroutine env s)) = m_startPreviewOp s"
    unfolding e c by (cases c) (simp_all add: s4)
  show "m_stopPreviewOp (snd (StopPreviewCoroutine env s)) = m_stopPreviewOp s"
    unfolding e c by (cases c) (simp_all add: s4)
qed

lemma other_steps:
  "engine_step s (OnStreamPayload env sender payload s)"
  "engine_step s (PayloadHandler_install h s)"
  "engine_step s (AppCoordinateSystem_set c s)"
  "engine_step s (snd (StopPreviewCoroutine env s))"
  "engine_step s (stop_coroutine_finishes env s)"
  "engine_step s (ReleaseDeviceResources s)"
  "engine_step s (snd (CreateDeviceResources env s))"
  "engine_step s (s\<lparr>m_isShutdown := True\<rparr>)"
proof -
  show "engine_step s (stop_coroutine_finishes env s)"
    using StopPreviewCoroutine_ops [of env s]
    by (intro engine_step.other) (auto simp: stop_coroutine_finishes_def split: prod.splits)
qed (rule engine_step.other;
     simp add: OnStreamPayload_ops PayloadHandler_install_ops AppCoordinateSystem_set_def
       StopPreviewCoroutine_ops ReleaseDeviceResources_def CreateDeviceResources_ops)+

lemma Shutdown_reachable:
  assumes "reachable s"
    and "\<And>x. keeps_handles x (awaitStart x)" and "\<And>x. keeps_handles x (awaitStop x)"
  shows "reachable (Shutdown awaitStart awaitStop s)"
proof (cases "m_isShutdown s")
  case True
  with assms(1) show ?thesis by (simp add: Shutdown_def)
next
  case False
  let ?s1 = "s\<lparr>m_isShutdown := True\<rparr>"
  let ?s2 = "if m_startPreviewOp ?s1 = Some Started then awaitStart ?s1 else ?s1"
  let ?s3 = "if m_mediaCapture ?s2 \<noteq> None then snd (StopPreview ?s2) else ?s2"
  let ?s4 = "if m_stopPreviewOp ?s3 = Some Started then awaitStop ?s3 else ?s3"
  have w: "engine_step x (awaitStart x)" "engine_step x (awaitStop x)" for x
    using assms(2) [of x] assms(3) [of x] by (auto simp: keeps_handles_def intro: engine_step.other)
  have r1: "reachable ?s1"
    by (rule reachable.step [OF assms(1) other_steps(8)])
  have r2: "reachable ?s2"
    using r1 reachable.step [OF r1 w(1)] by simp
  have r3: "reachable ?s3"
    using r2 reachable.step [OF r2 engine_step.call_stop] by (simp del: CaptureEngine.simps)
  have r4: "reachable ?s4"
    using r3 reachable.step [OF r3 w(2)] by (simp del: CaptureEngine.simps)
  have "Shutdown awaitStart awaitStop s = ReleaseDeviceResources ?s4"
    using False by (simp add: Shutdown_def Let_def)
  with reachable.step [OF r4 other_steps(6)] show ?thesis by simp
qed

end
